theory Spec2Isabelle
  imports Main
begin

section \<open>Route-history CSV export: the script get\_route\_csv.py\<close>

text \<open>
  The script reads a list of vehicle registrations, drives one browser session through
  login, navigation and vehicle selection for each of them, requests an export URL and
  renames the downloaded file. Python strings are modelled as \<^typ>\<open>string\<close>, with
  one \<^typ>\<open>char\<close> per character (so the text is restricted to code points below 256).
\<close>

subsection \<open>Python string primitives\<close>

text \<open>\<^verbatim>\<open>s.startswith(p)\<close>: \<open>p\<close> is an initial segment of \<open>s\<close>.\<close>

fun startswith :: "string \<Rightarrow> string \<Rightarrow> bool" where
  "startswith s [] = True"
| "startswith [] (p # ps) = False"
| "startswith (c # cs) (p # ps) = (c = p \<and> startswith cs ps)"

text \<open>
  \<^verbatim>\<open>s[start:stop]\<close> with Python's index rules: a negative index counts from the end,
  both indices are clamped to the string, and an empty range gives the empty string.
\<close>

definition clamp_index :: "nat \<Rightarrow> int \<Rightarrow> nat" where
  "clamp_index n i = (if i < 0 then nat (max 0 (int n + i)) else min n (nat i))"

definition py_slice :: "'a list \<Rightarrow> int \<Rightarrow> int \<Rightarrow> 'a list" where
  "py_slice xs start stop =
     (let lo = clamp_index (length xs) start; hi = clamp_index (length xs) stop
      in if lo < hi then take (hi - lo) (drop lo xs) else [])"

text \<open>
  \<^verbatim>\<open>c.isspace()\<close> for a character below 256: tab, line feed, vertical tab, form feed,
  carriage return, the four separators 28 to 31, space, next line (133) and no-break
  space (160).
\<close>

definition py_isspace :: "char \<Rightarrow> bool" where
  "py_isspace c =
     (let n = (of_char c :: nat)
      in (9 \<le> n \<and> n \<le> 13) \<or> (28 \<le> n \<and> n \<le> 32) \<or> n = 133 \<or> n = 160)"

text \<open>\<^verbatim>\<open>s.strip()\<close>: whitespace removed at both ends.\<close>

definition strip :: "string \<Rightarrow> string" where
  "strip s = rev (dropWhile py_isspace (rev (dropWhile py_isspace s)))"

text \<open>\<^verbatim>\<open>p in s\<close> for strings: \<open>p\<close> occurs in \<open>s\<close> as a contiguous part.\<close>

fun py_in :: "string \<Rightarrow> string \<Rightarrow> bool" where
  "py_in p [] = (p = [])"
| "py_in p (c # cs) = (startswith (c # cs) p \<or> py_in p cs)"

subsection \<open>Reading a text file line by line\<close>

text \<open>
  A file opened with \<^verbatim>\<open>open(path, 'r')\<close> is read with universal newlines: \<open>\r\n\<close>
  and a lone \<open>\r\<close> arrive as \<open>\n\<close>. \<^verbatim>\<open>readlines()\<close> then cuts the text after each
  \<open>\n\<close>; every line keeps its \<open>\n\<close>, and text after the last \<open>\n\<close> is a last line
  without one.
\<close>

definition LF :: char where
  "LF = CHR 0x0A"

definition CR :: char where
  "CR = CHR 0x0D"

fun translate_newlines :: "string \<Rightarrow> string" where
  "translate_newlines [] = []"
| "translate_newlines [c] = (if c = CR then [LF] else [c])"
| "translate_newlines (c # d # cs) =
     (if c = CR then
        (if d = LF then LF # translate_newlines cs else LF # translate_newlines (d # cs))
      else c # translate_newlines (d # cs))"

fun cut_lines :: "string \<Rightarrow> string \<Rightarrow> string list" where
  "cut_lines cur [] = (if cur = [] then [] else [cur])"
| "cut_lines cur (c # cs) =
     (if c = LF then (cur @ [c]) # cut_lines [] cs else cut_lines (cur @ [c]) cs)"

definition readlines :: "string \<Rightarrow> string list" where
  "readlines content = cut_lines [] (translate_newlines content)"

subsection \<open>The vehicle list (get\_vehicles, line 37)\<close>

definition vehicles_of_lines :: "string list \<Rightarrow> string list" where
  "vehicles_of_lines vehicles = [strip veh. veh \<leftarrow> vehicles, \<not> startswith veh ''#'']"

subsection \<open>Errors\<close>

text \<open>
  The exceptions the script can meet: the two Selenium classes its handler names, the
  two built-in ones its own expressions raise, and any other class, given by its name
  and by the classes of this model it is derived from. Selenium 3's
  \<open>InvalidSelectorException\<close>, a subclass of \<open>NoSuchElementException\<close>, is
  \<open>OtherException ''InvalidSelectorException'' [NoSuchElementException]\<close>; a class derived
  from none of them has the empty list.
\<close>

datatype error =
    NoSuchElementException
  | TimeoutException
  | ValueError
  | OverflowError
  | OtherException string "error list"

subsection \<open>Dates (datetime, timedelta and strftime, line 148)\<close>

text \<open>
  A naive \<^verbatim>\<open>datetime\<close> in the proleptic Gregorian calendar. \<^verbatim>\<open>toordinal\<close> numbers
  the days from 1 for 0001-01-01.
\<close>

record datetime =
  year :: int
  month :: int
  day :: int
  hour :: int
  minute :: int
  second :: int
  microsecond :: int

definition is_leap :: "int \<Rightarrow> bool" where
  "is_leap y = (y mod 4 = 0 \<and> (y mod 100 \<noteq> 0 \<or> y mod 400 = 0))"

definition days_in_month :: "int \<Rightarrow> int \<Rightarrow> int" where
  "days_in_month y m =
     (if m = 2 then (if is_leap y then 29 else 28)
      else if m = 4 \<or> m = 6 \<or> m = 9 \<or> m = 11 then 30 else 31)"

definition days_before_year :: "int \<Rightarrow> int" where
  "days_before_year y = (let y1 = y - 1 in y1 * 365 + y1 div 4 - y1 div 100 + y1 div 400)"

definition days_before_month :: "int \<Rightarrow> int \<Rightarrow> int" where
  "days_before_month y m = sum_list (map (days_in_month y) [1..m - 1])"

definition toordinal :: "datetime \<Rightarrow> int" where
  "toordinal d = days_before_year (year d) + days_before_month (year d) (month d) + day d"

text \<open>The values a \<^verbatim>\<open>datetime\<close> can hold (its constructor checks them).\<close>

definition valid_datetime :: "datetime \<Rightarrow> bool" where
  "valid_datetime d =
     (1 \<le> year d \<and> year d \<le> 9999 \<and> 1 \<le> month d \<and> month d \<le> 12 \<and>
      1 \<le> day d \<and> day d \<le> days_in_month (year d) (month d) \<and>
      0 \<le> hour d \<and> hour d < 24 \<and> 0 \<le> minute d \<and> minute d < 60 \<and>
      0 \<le> second d \<and> second d < 60 \<and> 0 \<le> microsecond d \<and> microsecond d < 1000000)"

text \<open>
  \<^verbatim>\<open>d - timedelta(days=1)\<close>: the day before, at the same time of day; the day before
  0001-01-01 is out of range.
\<close>

definition minus_one_day :: "datetime \<Rightarrow> error + datetime" where
  "minus_one_day d =
     (if 1 < day d then Inr (d\<lparr>day := day d - 1\<rparr>)
      else if 1 < month d then
        Inr (d\<lparr>month := month d - 1, day := days_in_month (year d) (month d - 1)\<rparr>)
      else if 1 < year d then Inr (d\<lparr>year := year d - 1, month := 12, day := 31\<rparr>)
      else Inl OverflowError)"

text \<open>
  \<^verbatim>\<open>strftime('%d/%m/%Y')\<close>: day and month with two digits, the year with four (the
  years of a \<^verbatim>\<open>datetime\<close> are 1 to 9999; the C library of Windows, where the script
  runs, pads the year with zeros).
\<close>

definition digit :: "int \<Rightarrow> char" where
  "digit n = ''0123456789'' ! nat (n mod 10)"

definition two_digits :: "int \<Rightarrow> string" where
  "two_digits n = [digit (n div 10), digit n]"

definition four_digits :: "int \<Rightarrow> string" where
  "four_digits n = [digit (n div 1000), digit (n div 100), digit (n div 10), digit n]"

definition strftime_dmY :: "datetime \<Rightarrow> string" where
  "strftime_dmY d = two_digits (day d) @ ''/'' @ two_digits (month d) @ ''/'' @ four_digits (year d)"

subsection \<open>The export URL (download\_csv, lines 149 to 154)\<close>

text \<open>
  The URL is six adjacent literals, two of them f-strings; \<open>yesterday\<close>, \<open>aid\<close> and
  \<open>aname\<close> are inserted as they are, with no escaping.
\<close>

definition export_url :: "string \<Rightarrow> string \<Rightarrow> string \<Rightarrow> string" where
  "export_url yesterday aid aname =
     ''https://www.dennisconnect.co.uk/_handler/csv.ashx?'' @
     ''req=HISTORY_LIST&'' @
     (''sdate='' @ yesterday @ ''%2000:00&edate='' @ yesterday @ ''%2023:59'') @
     (''&atype=V&aid='' @ aid @ ''&aname='' @ aname) @
     ''&locfil=&useshape=false&dtl=0&s2r=false'' @
     ''&showdriverbehavioralerts=false''"

text \<open>
  The template as the specification prints it, with the portal host, the date, the
  internal identifier and the display name as parameters.
\<close>

definition spec_url_template :: "string \<Rightarrow> string \<Rightarrow> string \<Rightarrow> string \<Rightarrow> string" where
  "spec_url_template host D internal_id display_name =
     ''https://'' @ host @ ''/_handler/csv.ashx?req=HISTORY_LIST&sdate='' @ D @
     ''%2000:00&edate='' @ D @ ''%2023:59&atype=V&aid='' @ internal_id @
     ''&aname='' @ display_name @
     ''&locfil=&useshape=false&dtl=0&s2r=false&showdriverbehavioralalerts=false''"

text \<open>The same template with the last parameter spelled as the code spells it.\<close>

definition code_url_template :: "string \<Rightarrow> string \<Rightarrow> string \<Rightarrow> string \<Rightarrow> string" where
  "code_url_template host D internal_id display_name =
     ''https://'' @ host @ ''/_handler/csv.ashx?req=HISTORY_LIST&sdate='' @ D @
     ''%2000:00&edate='' @ D @ ''%2023:59&atype=V&aid='' @ internal_id @
     ''&aname='' @ display_name @
     ''&locfil=&useshape=false&dtl=0&s2r=false&showdriverbehavioralerts=false''"

subsection \<open>The new file name (download\_csv, line 161)\<close>

definition newname :: "string \<Rightarrow> string \<Rightarrow> string" where
  "newname aname downloaded = ''./'' @ aname @ ''_'' @ py_slice downloaded 2 (- 4) @ ''.csv''"

subsection \<open>The browser session and the operating system\<close>

text \<open>
  Selenium, the portal, the file system, the clock and the logger are not part of the
  script. They are a parameter of the model: a record of operations on an opaque state
  \<open>'b\<close>. An operation that can raise returns \<open>Inl\<close> of the exception or \<open>Inr\<close> of its
  value, and the next state.
\<close>

type_synonym element = nat

datatype keys = Text string | RETURN

datatype pyval = Str string | Bool bool | Dict "(string \<times> pyval) list"

record chrome_options =
  arguments :: "string list"
  experimental_options :: "(string \<times> pyval) list"

type_synonym ('a, 'b) cmd = "'b \<Rightarrow> (error + 'a) \<times> 'b"

text \<open>
  \<open>wait_for_visibility t i\<close> stands for Selenium's polling in
  \<^verbatim>\<open>WebDriverWait(driver, t).until(EC.visibility_of_element_located((By.ID, i)))\<close>: it
  answers \<open>Some e\<close> when the control is found displayed within \<open>t\<close> seconds, \<open>None\<close>
  when the bound elapses first. \<open>select_by_visible_text\<close> raises
  \<open>NoSuchElementException\<close> when no option of the control carries the text.
  \<open>get_attribute\<close> answers \<open>None\<close> for an attribute the element does not have.
  Reading the clock, sleeping, listing the directory and logging answer without raising.
\<close>

record 'b driver =
  read_text :: "string \<Rightarrow> (string, 'b) cmd"
  basicConfig :: "string \<Rightarrow> (unit, 'b) cmd"
  logging_exception :: "error \<Rightarrow> 'b \<Rightarrow> 'b"
  chrome :: "string \<Rightarrow> chrome_options \<Rightarrow> (unit, 'b) cmd"
  execute :: "string \<Rightarrow> (string \<times> pyval) list \<Rightarrow> (unit, 'b) cmd"
  get :: "string \<Rightarrow> (unit, 'b) cmd"
  title :: "(string, 'b) cmd"
  find_element_by_id :: "string \<Rightarrow> (element, 'b) cmd"
  find_element_by_xpath :: "string \<Rightarrow> (element, 'b) cmd"
  click :: "element \<Rightarrow> (unit, 'b) cmd"
  send_keys :: "element \<Rightarrow> keys \<Rightarrow> (unit, 'b) cmd"
  switch_to_frame :: "string \<Rightarrow> (unit, 'b) cmd"
  wait_for_visibility :: "nat \<Rightarrow> string \<Rightarrow> (element option, 'b) cmd"
  select :: "element \<Rightarrow> (unit, 'b) cmd"
  select_by_visible_text :: "element \<Rightarrow> string \<Rightarrow> (unit, 'b) cmd"
  get_attribute :: "element \<Rightarrow> string \<Rightarrow> (string option, 'b) cmd"
  datetime_now :: "'b \<Rightarrow> datetime"
  sleep :: "nat \<Rightarrow> 'b \<Rightarrow> 'b"
  glob :: "string \<Rightarrow> 'b \<Rightarrow> string list"
  getctime :: "string \<Rightarrow> (nat, 'b) cmd"
  rename :: "string \<Rightarrow> string \<Rightarrow> (unit, 'b) cmd"

text \<open>What the script did, in order: one event for each call it makes.\<close>

datatype event =
    Read_text string
  | BasicConfig string
  | Logging_exception error
  | Chrome string chrome_options
  | Execute string "(string \<times> pyval) list"
  | Get string
  | Title
  | Find_element_by_id string
  | Find_element_by_xpath string
  | Click element
  | Send_keys element keys
  | Switch_to_frame string
  | Wait_for_visibility nat string
  | Select element
  | Select_by_visible_text element string
  | Get_attribute element string
  | Datetime_now
  | Sleep nat
  | Glob string
  | Getctime string
  | Rename string string
  | Print string

record 'b world =
  trace :: "event list"
  browser :: 'b

type_synonym ('a, 'b) prog = "'b world \<Rightarrow> (error + 'a) \<times> 'b world"

definition ret :: "'a \<Rightarrow> ('a, 'b) prog" where
  "ret x w = (Inr x, w)"

definition raise :: "error \<Rightarrow> ('a, 'b) prog" where
  "raise e w = (Inl e, w)"

text \<open>The result of a pure expression that may raise.\<close>

definition lift :: "error + 'a \<Rightarrow> ('a, 'b) prog" where
  "lift r w = (r, w)"

text \<open>Sequencing: an exception of the first part skips the rest.\<close>

definition and_then :: "('a, 'b) prog \<Rightarrow> ('a \<Rightarrow> ('c, 'b) prog) \<Rightarrow> ('c, 'b) prog" where
  "and_then m f w = (case m w of (Inl e, w') \<Rightarrow> (Inl e, w') | (Inr x, w') \<Rightarrow> f x w')"

definition call :: "event \<Rightarrow> ('a, 'b) cmd \<Rightarrow> ('a, 'b) prog" where
  "call ev c w =
     (case c (browser w) of (r, b') \<Rightarrow> (r, \<lparr>trace = trace w @ [ev], browser = b'\<rparr>))"

definition effect :: "event \<Rightarrow> ('b \<Rightarrow> 'b) \<Rightarrow> (unit, 'b) prog" where
  "effect ev f w = (Inr (), \<lparr>trace = trace w @ [ev], browser = f (browser w)\<rparr>)"

definition print :: "string \<Rightarrow> (unit, 'b) prog" where
  "print s = effect (Print s) (\<lambda>b. b)"

subsection \<open>get\_vehicles\<close>

definition get_vehicles :: "'b driver \<Rightarrow> string \<Rightarrow> (string list, 'b) prog" where
  "get_vehicles drv path =
     and_then (call (Read_text path) (read_text drv path)) (\<lambda>content.
     ret (vehicles_of_lines (readlines content)))"

subsection \<open>setup\_driver\<close>

text \<open>
  The options are built first; the browser is started with them; the command that
  allows downloads in headless mode is sent; a line is printed. Lines 64 to 66 only
  register the command's name and the browser's name in dictionaries of the Python
  client and call nothing. The session the function returns is the one session of the
  model.
\<close>

definition add_argument :: "string \<Rightarrow> chrome_options \<Rightarrow> chrome_options" where
  "add_argument a opts = opts\<lparr>arguments := arguments opts @ [a]\<rparr>"

definition add_experimental_option ::
  "string \<Rightarrow> pyval \<Rightarrow> chrome_options \<Rightarrow> chrome_options" where
  "add_experimental_option k v opts =
     opts\<lparr>experimental_options := experimental_options opts @ [(k, v)]\<rparr>"

definition setup_driver :: "'b driver \<Rightarrow> bool \<Rightarrow> string \<Rightarrow> (unit, 'b) prog" where
  "setup_driver drv headless directory =
     (let options = \<lparr>arguments = [], experimental_options = []\<rparr>;
          options = add_argument ''--disable-gpu'' options;
          options = add_argument ''--log-level=3'' options;
          prefs = Dict [
            (''download.default_directory'', Str directory),
            (''download.prompt_for_download'', Bool False),
            (''download.directory_upgrade'', Bool True),
            (''safebrowsing.enabled'', Bool False),
            (''safebrowsing.disable_download_protection'', Bool True)];
          options = add_experimental_option ''prefs'' prefs options;
          options = (if headless then add_argument ''--headless'' options else options);
          executable_path = ''.'' @ [CHR 0x5C] @ ''chromedriver.exe'';
          params = [
            (''cmd'', Str ''Page.setDownloadBehavior''),
            (''params'', Dict [
              (''behavior'', Str ''allow''),
              (''downloadPath'', Str directory)])]
      in and_then (call (Chrome executable_path options) (chrome drv executable_path options)) (\<lambda>_.
         and_then (call (Execute ''send_command'' params) (execute drv ''send_command'' params)) (\<lambda>_.
         print ''Launching browser'')))"

subsection \<open>login\<close>

definition login :: "'b driver \<Rightarrow> string \<Rightarrow> string \<Rightarrow> string \<Rightarrow> (unit, 'b) prog" where
  "login drv account username password =
     and_then (call (Get ''https://www.dennisconnect.co.uk/'')
                 (get drv ''https://www.dennisconnect.co.uk/'')) (\<lambda>_.
     and_then (call Title (title drv)) (\<lambda>title1.
     and_then
       (if title1 = ''Cookie Usage'' then
          and_then (call (Find_element_by_id ''btnAccept'')
                      (find_element_by_id drv ''btnAccept'')) (\<lambda>b.
          call (Click b) (click drv b))
        else ret ()) (\<lambda>_.
     and_then (call Title (title drv)) (\<lambda>title2.
     if py_in ''Login'' title2 then
       and_then (call (Find_element_by_id ''txtAccountNumber'')
                   (find_element_by_id drv ''txtAccountNumber'')) (\<lambda>account_field.
       and_then (call (Send_keys account_field (Text account))
                   (send_keys drv account_field (Text account))) (\<lambda>_.
       and_then (call (Find_element_by_id ''txtUserName'')
                   (find_element_by_id drv ''txtUserName'')) (\<lambda>username_field.
       and_then (call (Send_keys username_field (Text username))
                   (send_keys drv username_field (Text username))) (\<lambda>_.
       and_then (call (Find_element_by_id ''txtPassword'')
                   (find_element_by_id drv ''txtPassword'')) (\<lambda>password_field.
       and_then (call (Send_keys password_field (Text password))
                   (send_keys drv password_field (Text password))) (\<lambda>_.
       and_then (call (Send_keys password_field RETURN)
                   (send_keys drv password_field RETURN)) (\<lambda>_.
       print (''Logging in as '' @ username))))))))
     else ret ()))))"

subsection \<open>go\_to\_history\<close>

text \<open>
  \<^verbatim>\<open>WebDriverWait(driver, t).until(...)\<close>: the element when the control was seen
  displayed, \<open>TimeoutException\<close> when the bound elapsed.
\<close>

definition until_visible :: "'b driver \<Rightarrow> nat \<Rightarrow> string \<Rightarrow> (element, 'b) prog" where
  "until_visible drv timeout ident =
     and_then (call (Wait_for_visibility timeout ident) (wait_for_visibility drv timeout ident))
       (\<lambda>value. case value of None \<Rightarrow> raise TimeoutException | Some e \<Rightarrow> ret e)"

definition history_tab :: string where
  \<open>history_tab = ''//*[@id="tabContainer"]/li[3]''\<close>

definition go_to_history :: "'b driver \<Rightarrow> (unit, 'b) prog" where
  "go_to_history drv =
     and_then (call (Find_element_by_xpath history_tab)
                 (find_element_by_xpath drv history_tab)) (\<lambda>tab.
     and_then (call (Click tab) (click drv tab)) (\<lambda>_.
     and_then (call (Switch_to_frame ''tab4frame'') (switch_to_frame drv ''tab4frame'')) (\<lambda>_.
     and_then (until_visible drv 10 ''ctl00_cphcontent_htPingList'') (\<lambda>ping_list.
     call (Click ping_list) (click drv ping_list)))))"

subsection \<open>get\_vehicle\_id\<close>

definition option_xpath :: "string \<Rightarrow> string" where
  \<open>option_xpath vehicle =
     ''//*[@id="ctl00_cphcontent_ddlVehicle"]/option[.="'' @ vehicle @ ''"]''\<close>

definition get_vehicle_id :: "'b driver \<Rightarrow> string \<Rightarrow> (string \<times> string option, 'b) prog" where
  "get_vehicle_id drv vehicle =
     and_then (print (''Finding history for '' @ vehicle)) (\<lambda>_.
     and_then (call (Find_element_by_id ''ctl00_cphcontent_ddlVehicle'')
                 (find_element_by_id drv ''ctl00_cphcontent_ddlVehicle'')) (\<lambda>dropdown.
     and_then (call (Select dropdown) (select drv dropdown)) (\<lambda>_.
     and_then (call (Select_by_visible_text dropdown vehicle)
                 (select_by_visible_text drv dropdown vehicle)) (\<lambda>_.
     and_then (call (Find_element_by_id ''ctl00_cphcontent_btnRunHistory'')
                 (find_element_by_id drv ''ctl00_cphcontent_btnRunHistory'')) (\<lambda>run.
     and_then (call (Click run) (click drv run)) (\<lambda>_.
     and_then (call (Find_element_by_xpath (option_xpath vehicle))
                 (find_element_by_xpath drv (option_xpath vehicle))) (\<lambda>selected.
     and_then (call (Get_attribute selected ''value'')
                 (get_attribute drv selected ''value'')) (\<lambda>v.
     ret (vehicle, v)))))))))"

subsection \<open>download\_csv\<close>

text \<open>An f-string prints a missing attribute (\<^verbatim>\<open>None\<close>) as the text \<open>None\<close>.\<close>

definition format_value :: "string option \<Rightarrow> string" where
  "format_value v = (case v of None \<Rightarrow> ''None'' | Some s \<Rightarrow> s)"

text \<open>
  \<^verbatim>\<open>max(files, key=os.path.getctime)\<close>: \<open>ValueError\<close> on an empty list; otherwise the
  key of each file is read in order and the first file with the greatest key wins.
\<close>

fun max_loop :: "'b driver \<Rightarrow> string \<Rightarrow> nat \<Rightarrow> string list \<Rightarrow> (string, 'b) prog" where
  "max_loop drv maxitem maxval [] = ret maxitem"
| "max_loop drv maxitem maxval (item # items) =
     and_then (call (Getctime item) (getctime drv item)) (\<lambda>val.
     if maxval < val then max_loop drv item val items
     else max_loop drv maxitem maxval items)"

definition max_getctime :: "'b driver \<Rightarrow> string list \<Rightarrow> (string, 'b) prog" where
  "max_getctime drv files =
     (case files of
        [] \<Rightarrow> raise ValueError
      | item # items \<Rightarrow>
          and_then (call (Getctime item) (getctime drv item)) (\<lambda>val.
          max_loop drv item val items))"

definition download_csv :: "'b driver \<Rightarrow> string \<times> string option \<Rightarrow> (unit, 'b) prog" where
  "download_csv drv dropdown_option =
     (let aid = format_value (snd dropdown_option);
          aname = fst dropdown_option
      in and_then (call Datetime_now (\<lambda>b. (Inr (datetime_now drv b), b))) (\<lambda>now.
         and_then (lift (minus_one_day now)) (\<lambda>day_before.
         let yesterday = strftime_dmY day_before;
             url = export_url yesterday aid aname
         in and_then (print ''Downloading CSV file'') (\<lambda>_.
            and_then (call (Get url) (get drv url)) (\<lambda>_.
            and_then (effect (Sleep 3) (sleep drv 3)) (\<lambda>_.
            and_then (call (Glob ''./*.csv'') (\<lambda>b. (Inr (glob drv ''./*.csv'' b), b))) (\<lambda>files.
            and_then (max_getctime drv files) (\<lambda>downloaded.
            let new = newname aname downloaded
            in and_then (call (Rename downloaded new) (rename drv downloaded new)) (\<lambda>_.
               print (''Downloaded file '' @ drop 2 new @ [LF]))))))))))"

subsection \<open>The script body (lines 165 to 178)\<close>

definition directory :: string where
  "directory = ''C:'' @ [CHR 0x5C] @ ''..'' @ [CHR 0x5C] @ ''..'' @ [CHR 0x5C] @ ''..''"

text \<open>One pass of the loop body, lines 173 to 176.\<close>

definition iteration :: "'b driver \<Rightarrow> string \<Rightarrow> (unit, 'b) prog" where
  "iteration drv vehicle =
     and_then (login drv ''####'' ''####'' ''####'') (\<lambda>_.
     and_then (go_to_history drv) (\<lambda>_.
     and_then (get_vehicle_id drv vehicle) (\<lambda>vehicle_id.
     download_csv drv vehicle_id)))"

fun for_vehicles :: "'b driver \<Rightarrow> string list \<Rightarrow> (unit, 'b) prog" where
  "for_vehicles drv [] = ret ()"
| "for_vehicles drv (vehicle # vehicles) =
     and_then (iteration drv vehicle) (\<lambda>_. for_vehicles drv vehicles)"

text \<open>
  \<^verbatim>\<open>except (NoSuchElementException, TimeoutException) as exc\<close>: the clause matches an
  instance of one of the two classes it names or of a class derived from one of them.
\<close>

fun handled :: "error \<Rightarrow> bool" where
  "handled NoSuchElementException = True"
| "handled TimeoutException = True"
| "handled ValueError = False"
| "handled OverflowError = False"
| "handled (OtherException name bases) = (\<exists>base \<in> set bases. handled base)"

text \<open>
  The \<^verbatim>\<open>try\<close> statement, lines 170 to 178: a handled exception is logged and the
  statement ends normally; any other exception leaves it.
\<close>

definition try_body :: "'b driver \<Rightarrow> string list \<Rightarrow> (unit, 'b) prog" where
  "try_body drv vehicles =
     and_then (setup_driver drv True directory) (\<lambda>_. for_vehicles drv vehicles)"

definition try_except :: "'b driver \<Rightarrow> string list \<Rightarrow> (unit, 'b) prog" where
  "try_except drv vehicles w =
     (case try_body drv vehicles w of
        (Inl exc, w') \<Rightarrow>
          if handled exc then effect (Logging_exception exc) (logging_exception drv exc) w'
          else (Inl exc, w')
      | (Inr u, w') \<Rightarrow> (Inr u, w'))"

text \<open>
  The whole run. \<open>Inr ()\<close> is a normal end of the process, \<open>Inl e\<close> an unhandled
  exception \<open>e\<close> that ends it with a traceback.
\<close>

definition main :: "'b driver \<Rightarrow> (unit, 'b) prog" where
  "main drv =
     and_then (call (BasicConfig ''./get_routes.log'') (basicConfig drv ''./get_routes.log'')) (\<lambda>_.
     and_then (get_vehicles drv ''./vehicles_list.txt'') (\<lambda>vehicles.
     try_except drv vehicles))"

subsection \<open>A scripted session\<close>

text \<open>
  A session in which every call succeeds: the vehicle file holds \<open>ABC123\<close>, a comment
  line and \<open>GHI789\<close>, the page is the login page, the control is visible, every
  registration of the list \<open>known\<close> is an option of the dropdown, the clock reads
  2024-03-15 10:00:00, and the directory holds the files \<open>files\<close>, listed with their
  creation times.
\<close>

definition vehicles_txt :: string where
  "vehicles_txt = ''ABC123'' @ [LF] @ ''#DEF456'' @ [LF] @ ''GHI789'' @ [LF]"

definition fixed_now :: datetime where
  "fixed_now = \<lparr>year = 2024, month = 3, day = 15, hour = 10, minute = 0, second = 0,
     microsecond = 0\<rparr>"

definition scripted :: "string list \<Rightarrow> (string \<times> nat) list \<Rightarrow> unit driver" where
  "scripted known files = \<lparr>
     read_text = (\<lambda>path b. (Inr vehicles_txt, b)),
     basicConfig = (\<lambda>filename b. (Inr (), b)),
     logging_exception = (\<lambda>exc b. b),
     chrome = (\<lambda>path opts b. (Inr (), b)),
     execute = (\<lambda>name params b. (Inr (), b)),
     get = (\<lambda>url b. (Inr (), b)),
     title = (\<lambda>b. (Inr ''Login'', b)),
     find_element_by_id = (\<lambda>i b. (Inr 1, b)),
     find_element_by_xpath = (\<lambda>x b. (Inr 2, b)),
     click = (\<lambda>e b. (Inr (), b)),
     send_keys = (\<lambda>e k b. (Inr (), b)),
     switch_to_frame = (\<lambda>f b. (Inr (), b)),
     wait_for_visibility = (\<lambda>t i b. (Inr (Some 3), b)),
     select = (\<lambda>e b. (Inr (), b)),
     select_by_visible_text =
       (\<lambda>e text b. (if text \<in> set known then Inr () else Inl NoSuchElementException, b)),
     get_attribute = (\<lambda>e a b. (Inr (Some ''42''), b)),
     datetime_now = (\<lambda>b. fixed_now),
     sleep = (\<lambda>secs b. b),
     glob = (\<lambda>pattern b. map fst files),
     getctime =
       (\<lambda>f b. (case map_of files f of
                   None \<Rightarrow> Inl (OtherException ''FileNotFoundError'' [])
                 | Some t \<Rightarrow> Inr t, b)),
     rename = (\<lambda>old new b. (Inr (), b))\<rparr>"

definition start :: "unit world" where
  "start = \<lparr>trace = [], browser = ()\<rparr>"

text \<open>
  Four variants of it: the control never becomes visible; the History tab is missing and
  the control never becomes visible; every click raises \<open>TimeoutException\<close>; every
  lookup by XPath raises Selenium 3's \<open>InvalidSelectorException\<close>.
\<close>

definition never_visible :: "unit driver" where
  "never_visible = (scripted [] []) \<lparr>wait_for_visibility := \<lambda>t i b. (Inr None, b)\<rparr>"

definition tab_missing :: "unit driver" where
  "tab_missing = (scripted [] [])
     \<lparr>find_element_by_xpath := \<lambda>x b. (Inl NoSuchElementException, b),
      wait_for_visibility := \<lambda>t i b. (Inr None, b)\<rparr>"

definition click_times_out :: "unit driver" where
  "click_times_out = (scripted [] []) \<lparr>click := \<lambda>e b. (Inl TimeoutException, b)\<rparr>"

definition InvalidSelectorException :: error where
  "InvalidSelectorException = OtherException ''InvalidSelectorException'' [NoSuchElementException]"

definition invalid_selector :: "unit driver" where
  "invalid_selector = (scripted [''ABC123'', ''GHI789''] [(''./a.csv'', 1)])
     \<lparr>find_element_by_xpath := \<lambda>x b. (Inl InvalidSelectorException, b)\<rparr>"

section \<open>Properties\<close>

subsection \<open>Slices\<close>

lemma py_slice_strip_ends:
  assumes "length a = 2" and "length b = 4"
  shows "py_slice (a @ m @ b) 2 (- 4) = m"
proof -
  have lo: "clamp_index (length (a @ m @ b)) 2 = 2"
    using assms by (simp add: clamp_index_def)
  have "int (length (a @ m @ b)) + (- 4) = int (2 + length m)"
    using assms by simp
  then have hi: "clamp_index (length (a @ m @ b)) (- 4) = 2 + length m"
    unfolding clamp_index_def by (simp del: length_append of_nat_add)
  show ?thesis
    unfolding py_slice_def lo hi Let_def using assms by (cases m) simp_all
qed

subsection \<open>The day before\<close>


lemma div_step:
  fixes z k :: int
  assumes "0 < k"
  shows "(z - 1) div k = (if z mod k = 0 then z div k - 1 else z div k)"
proof (cases "z mod k = 0")
  case True
  have e: "z - 1 = k * (z div k - 1) + (k - 1)"
    using True mult_div_mod_eq [of k z] by (simp add: algebra_simps)
  have "0 \<le> k - 1" "k - 1 < k"
    using assms by simp_all
  with e have "(z - 1) div k = z div k - 1"
    by (rule int_div_pos_eq)
  with True show ?thesis by simp
next
  case False
  have r: "0 \<le> z mod k - 1" "z mod k - 1 < k"
    using False assms pos_mod_sign [of k z] pos_mod_bound [of k z] by linarith+
  have e: "z - 1 = k * (z div k) + (z mod k - 1)"
    using mult_div_mod_eq [of k z] by simp
  from e r have "(z - 1) div k = z div k"
    by (rule int_div_pos_eq)
  with False show ?thesis by simp
qed

lemma mod_400_100: "(y::int) mod 400 = 0 \<Longrightarrow> y mod 100 = 0"
  using dvd_trans [of 100 400 y] by (simp add: mod_eq_0_iff_dvd)

lemma mod_100_4: "(y::int) mod 100 = 0 \<Longrightarrow> y mod 4 = 0"
  using dvd_trans [of 4 100 y] by (simp add: mod_eq_0_iff_dvd)


lemma days_before_year_step:
  "days_before_year (y + 1) = days_before_year y + (if is_leap y then 366 else 365)"
proof -
  have e4: "(y - 1) div 4 = (if y mod 4 = 0 then y div 4 - 1 else y div 4)"
    by (rule div_step) simp
  have e100: "(y - 1) div 100 = (if y mod 100 = 0 then y div 100 - 1 else y div 100)"
    by (rule div_step) simp
  have e400: "(y - 1) div 400 = (if y mod 400 = 0 then y div 400 - 1 else y div 400)"
    by (rule div_step) simp
  have l: "days_before_year (y + 1) = y * 365 + y div 4 - y div 100 + y div 400"
    by (simp add: days_before_year_def)
  have r: "days_before_year y = (y - 1) * 365 + (y - 1) div 4 - (y - 1) div 100 + (y - 1) div 400"
    by (simp add: days_before_year_def Let_def)
  consider (a) "y mod 400 = 0" | (b) "y mod 400 \<noteq> 0" "y mod 100 = 0"
    | (c) "y mod 100 \<noteq> 0" "y mod 4 = 0" | (d) "y mod 4 \<noteq> 0"
    by blast
  then show ?thesis
  proof cases
    case a
    then have "y mod 100 = 0" "y mod 4 = 0"
      by (simp_all add: mod_400_100 mod_100_4)
    with a show ?thesis
      unfolding l r e4 e100 e400 is_leap_def by (simp add: algebra_simps)
  next
    case b
    then have "y mod 4 = 0"
      by (simp add: mod_100_4)
    with b show ?thesis
      unfolding l r e4 e100 e400 is_leap_def by (simp add: algebra_simps)
  next
    case c
    then have "y mod 400 \<noteq> 0"
      using mod_400_100 [of y] by auto
    with c show ?thesis
      unfolding l r e4 e100 e400 is_leap_def by (simp add: algebra_simps)
  next
    case d
    then have "y mod 100 \<noteq> 0" "y mod 400 \<noteq> 0"
      using mod_400_100 [of y] mod_100_4 [of y] by auto
    with d show ?thesis
      unfolding l r e4 e100 e400 is_leap_def by (simp add: algebra_simps)
  qed
qed

lemma days_before_month_step:
  "2 \<le> m \<Longrightarrow> days_before_month y m = days_before_month y (m - 1) + days_in_month y (m - 1)"
  unfolding days_before_month_def using upto_rec2 [of 1 "m - 1"] by simp

lemma days_before_month_1: "days_before_month y 1 = 0"
  by (simp add: days_before_month_def)

lemma days_before_month_12: "days_before_month y 12 = (if is_leap y then 335 else 334)"
proof -
  have "[1..11::int] = [1,2,3,4,5,6,7,8,9,10,11]"
    by (simp add: upto.simps)
  then show ?thesis
    by (simp add: days_before_month_def days_in_month_def)
qed

lemma days_in_month_bounds: "28 \<le> days_in_month y m \<and> days_in_month y m \<le> 31"
  by (simp add: days_in_month_def)

lemma minus_one_day_ok:
  assumes v: "valid_datetime d" and n: "\<not> (year d = 1 \<and> month d = 1 \<and> day d = 1)"
  shows "\<exists>p. minus_one_day d = Inr p \<and> valid_datetime p \<and> toordinal p = toordinal d - 1
           \<and> hour p = hour d \<and> minute p = minute d \<and> second p = second d
           \<and> microsecond p = microsecond d"
proof -
  consider (day) "1 < day d" | (month) "day d = 1" "1 < month d"
    | (year) "day d = 1" "month d = 1" "1 < year d"
    using v n unfolding valid_datetime_def by linarith
  then show ?thesis
  proof cases
    case day
    then show ?thesis
      using v by (simp add: minus_one_day_def valid_datetime_def toordinal_def)
  next
    case month
    then show ?thesis
      using v days_in_month_bounds [of "year d" "month d - 1"]
        days_before_month_step [of "month d" "year d"]
      by (simp add: minus_one_day_def valid_datetime_def toordinal_def)
  next
    case year
    then show ?thesis
      using v days_before_year_step [of "year d - 1"] days_before_month_12 [of "year d - 1"]
      by (simp add: minus_one_day_def valid_datetime_def toordinal_def days_before_month_1
          days_in_month_def)
  qed
qed

subsection \<open>Strings, lines and the URL separator\<close>


lemma separator_unique:
  assumes "c \<notin> set xs" and "c \<notin> set ys" and "xs @ c # r = ys @ c # r'"
  shows "xs = ys \<and> r = r'"
proof -
  have "takeWhile (\<lambda>x. x \<noteq> c) (xs @ c # r) = xs"
    using assms(1) by (auto simp add: takeWhile_tail)
  moreover have "takeWhile (\<lambda>x. x \<noteq> c) (ys @ c # r') = ys"
    using assms(2) by (auto simp add: takeWhile_tail)
  ultimately have "xs = ys"
    using assms(3) by simp
  with assms(3) show ?thesis
    by simp
qed

lemma export_url_eqD:
  assumes "CHR ''&'' \<notin> set aid1" and "CHR ''&'' \<notin> set aid2"
    and "export_url D aid1 aname1 = export_url D aid2 aname2"
  shows "aid1 = aid2 \<and> aname1 = aname2"
proof -
  let ?rest = "''&locfil=&useshape=false&dtl=0&s2r=false'' @ ''&showdriverbehavioralerts=false''"
  from assms(3) have "aid1 @ CHR ''&'' # (''aname='' @ aname1 @ ?rest)
      = aid2 @ CHR ''&'' # (''aname='' @ aname2 @ ?rest)"
    by (simp add: export_url_def)
  with assms(1,2) have "aid1 = aid2 \<and> ''aname='' @ aname1 @ ?rest = ''aname='' @ aname2 @ ?rest"
    by (rule separator_unique)
  then show ?thesis
    by simp
qed

lemma vehicles_of_lines_map_filter:
  "vehicles_of_lines ls = map strip (filter (\<lambda>veh. \<not> startswith veh ''#'') ls)"
  by (induction ls) (simp_all add: vehicles_of_lines_def)

lemma startswith_hash: "startswith veh ''#'' \<longleftrightarrow> veh \<noteq> [] \<and> hd veh = CHR ''#''"
  by (cases veh) auto

lemma last_dropWhile: "dropWhile P xs \<noteq> [] \<Longrightarrow> last (dropWhile P xs) = last xs"
  by (induction xs) (auto split: if_splits)

lemma strip_parts:
  "\<exists>a b. s = a @ strip s @ b \<and> (\<forall>c \<in> set a. py_isspace c) \<and> (\<forall>c \<in> set b. py_isspace c)"
proof -
  let ?t = "dropWhile py_isspace s"
  have 1: "s = takeWhile py_isspace s @ ?t"
    by simp
  have "rev (rev ?t) = rev (takeWhile py_isspace (rev ?t) @ dropWhile py_isspace (rev ?t))"
    by (simp only: takeWhile_dropWhile_id)
  then have 2: "?t = strip s @ rev (takeWhile py_isspace (rev ?t))"
    by (simp only: rev_append rev_rev_ident strip_def)
  have "s = takeWhile py_isspace s @ strip s @ rev (takeWhile py_isspace (rev ?t))"
    using 1 2 by metis
  moreover have "\<forall>c \<in> set (takeWhile py_isspace s). py_isspace c"
    by (auto dest: set_takeWhileD)
  moreover have "\<forall>c \<in> set (rev (takeWhile py_isspace (rev ?t))). py_isspace c"
    by (auto dest: set_takeWhileD)
  ultimately show ?thesis
    by blast
qed

lemma strip_ends:
  assumes "strip s \<noteq> []"
  shows "\<not> py_isspace (hd (strip s)) \<and> \<not> py_isspace (last (strip s))"
proof -
  let ?t = "dropWhile py_isspace s"
  let ?u = "dropWhile py_isspace (rev ?t)"
  from assms have u: "?u \<noteq> []"
    by (simp add: strip_def)
  have t: "?t \<noteq> []"
  proof
    assume "?t = []"
    then have "?u = []"
      by (simp only: rev.simps dropWhile.simps)
    with u show False ..
  qed
  have "last (strip s) = hd ?u"
    using u by (simp add: strip_def last_rev)
  moreover have "\<not> py_isspace (hd ?u)"
    using u by (rule hd_dropWhile)
  moreover have "hd (strip s) = last ?u"
    using u by (simp add: strip_def hd_rev)
  moreover have "last ?u = last (rev ?t)"
    using u by (rule last_dropWhile)
  moreover have "last (rev ?t) = hd ?t"
    using t by (simp add: last_rev)
  moreover have "\<not> py_isspace (hd ?t)"
    using t by (rule hd_dropWhile)
  ultimately show ?thesis
    by simp
qed




lemma concat_cut_lines: "concat (cut_lines cur s) = cur @ s"
  by (induction s arbitrary: cur) simp_all

lemma concat_readlines: "concat (readlines content) = translate_newlines content"
  by (simp add: readlines_def concat_cut_lines)

lemma and_then_Inr: "m w = (Inr x, w') \<Longrightarrow> and_then m f w = f x w'"
  by (simp add: and_then_def)

lemma get_vehicles_result:
  assumes "read_text drv path (browser w) = (Inr content, b')"
  shows "get_vehicles drv path w =
    (Inr (vehicles_of_lines (readlines content)), \<lparr>trace = trace w @ [Read_text path], browser = b'\<rparr>)"
  using assms by (simp add: get_vehicles_def and_then_def call_def ret_def)

lemma vehicles_txt_lines:
  "readlines vehicles_txt = [''ABC123'' @ [LF], ''#DEF456'' @ [LF], ''GHI789'' @ [LF]]"
  by (simp add: readlines_def vehicles_txt_def LF_def CR_def)

lemma example_lines:
  "vehicles_of_lines [''ABC123'', ''#DEF456'', ''GHI789''] = [''ABC123'', ''GHI789'']"
  by (simp add: vehicles_of_lines_def strip_def py_isspace_def)

lemma example_file_lines:
  "vehicles_of_lines (readlines vehicles_txt) = [''ABC123'', ''GHI789'']"
  by (simp add: vehicles_txt_lines vehicles_of_lines_def strip_def py_isspace_def LF_def)


lemma for_vehicles_append:
  "for_vehicles drv (xs @ ys) w = and_then (for_vehicles drv xs) (\<lambda>_. for_vehicles drv ys) w"
proof (induction xs arbitrary: w)
  case Nil
  show ?case
    by (simp add: and_then_def ret_def)
next
  case (Cons x xs)
  show ?case
    by (cases "iteration drv x w" rule: prod.exhaust [case_names Pair])
      (auto simp add: and_then_def Cons.IH split: sum.splits prod.splits)
qed

subsection \<open>The claims about the vehicle list\<close>

text \<open>
  C2. When the file can be read, get\_vehicles returns the lines of the file that do
  not start with \<open>#\<close>, each stripped of whitespace at both ends, in the order of the
  file. The lines are the pieces of the text, each ending with its line feed. A line
  starts with \<open>#\<close> exactly when it is not empty and its first character is \<open>#\<close>; a
  stripped line is the line without a whitespace prefix and a whitespace suffix, and its
  own ends are not whitespace. A file of comment lines only gives the empty list, and the
  list \<open>ABC123\<close>, \<open>#DEF456\<close>, \<open>GHI789\<close> gives \<open>ABC123\<close>, \<open>GHI789\<close>.
\<close>

theorem get_vehicles_noncomment_lines:
  assumes "read_text drv path (browser w) = (Inr content, b')"
  shows "fst (get_vehicles drv path w) =
      Inr (map strip (filter (\<lambda>veh. \<not> startswith veh ''#'') (readlines content)))
    \<and> concat (readlines content) = translate_newlines content
    \<and> (\<forall>veh. startswith veh ''#'' \<longleftrightarrow> veh \<noteq> [] \<and> hd veh = CHR ''#'')
    \<and> (\<forall>veh. \<exists>a b. veh = a @ strip veh @ b \<and> (\<forall>c \<in> set a. py_isspace c)
          \<and> (\<forall>c \<in> set b. py_isspace c))
    \<and> (\<forall>veh. strip veh \<noteq> [] \<longrightarrow>
          \<not> py_isspace (hd (strip veh)) \<and> \<not> py_isspace (last (strip veh)))
    \<and> ((\<forall>veh \<in> set (readlines content). startswith veh ''#'') \<longrightarrow>
          fst (get_vehicles drv path w) = Inr [])
    \<and> vehicles_of_lines [''ABC123'', ''#DEF456'', ''GHI789''] = [''ABC123'', ''GHI789'']"
proof -
  have r: "fst (get_vehicles drv path w) = Inr (vehicles_of_lines (readlines content))"
    using get_vehicles_result [OF assms] by simp
  have 1: "fst (get_vehicles drv path w) =
      Inr (map strip (filter (\<lambda>veh. \<not> startswith veh ''#'') (readlines content)))"
    unfolding r vehicles_of_lines_map_filter by (rule refl)
  have 5: "(\<forall>veh \<in> set (readlines content). startswith veh ''#'') \<longrightarrow>
      fst (get_vehicles drv path w) = Inr []"
    unfolding 1 by (simp add: filter_empty_conv)
  show ?thesis
    using 1 concat_readlines startswith_hash strip_parts strip_ends 5 example_lines
    by (intro conjI allI impI) blast+
qed

theorem get_vehicles_noncomment_lines_witness:
  "read_text (scripted [] []) ''./vehicles_list.txt'' (browser start) = (Inr vehicles_txt, ())
   \<and> fst (get_vehicles (scripted [] []) ''./vehicles_list.txt'' start) = Inr [''ABC123'', ''GHI789'']
   \<and> read_text ((scripted [] []) \<lparr>read_text := \<lambda>p b. (Inr (''#a'' @ [LF] @ ''#b''), b)\<rparr>)
        ''./vehicles_list.txt'' (browser start) = (Inr (''#a'' @ [LF] @ ''#b''), ())
   \<and> fst (get_vehicles ((scripted [] []) \<lparr>read_text := \<lambda>p b. (Inr (''#a'' @ [LF] @ ''#b''), b)\<rparr>)
        ''./vehicles_list.txt'' start) = Inr []"
proof -
  let ?c = "(scripted [] []) \<lparr>read_text := \<lambda>p b. (Inr (''#a'' @ [LF] @ ''#b''), b)\<rparr>"
  have h1: "read_text (scripted [] []) ''./vehicles_list.txt'' (browser start) = (Inr vehicles_txt, ())"
    by (simp add: scripted_def)
  have h2: "read_text ?c ''./vehicles_list.txt'' (browser start) = (Inr (''#a'' @ [LF] @ ''#b''), ())"
    by simp
  have l: "readlines (''#a'' @ [LF] @ ''#b'') = [''#a'' @ [LF], ''#b'']"
    by (simp add: readlines_def LF_def CR_def)
  from get_vehicles_noncomment_lines [OF h1]
  have "fst (get_vehicles (scripted [] []) ''./vehicles_list.txt'' start) =
      Inr (map strip (filter (\<lambda>veh. \<not> startswith veh ''#'') (readlines vehicles_txt)))"
    by (rule conjunct1)
  then have a: "fst (get_vehicles (scripted [] []) ''./vehicles_list.txt'' start) = Inr [''ABC123'', ''GHI789'']"
    using example_file_lines by (simp add: vehicles_of_lines_map_filter)
  from get_vehicles_noncomment_lines [OF h2]
  have "(\<forall>veh \<in> set (readlines (''#a'' @ [LF] @ ''#b'')). startswith veh ''#'') \<longrightarrow>
      fst (get_vehicles ?c ''./vehicles_list.txt'' start) = Inr []"
    by blast
  then have b: "fst (get_vehicles ?c ''./vehicles_list.txt'' start) = Inr []"
    unfolding l by simp
  from h1 a h2 b show ?thesis
    by (intro conjI)
qed




subsection \<open>The claims about the URL and the date\<close>

text \<open>
  C9 (as the specification states it, refuted). The identifier fields go into the URL
  unescaped, so two different pairs can give one URL: the internal identifier
  \<open>1&aname=2\<close> with the display name \<open>3\<close>, and the internal identifier \<open>1\<close> with
  the display name \<open>2&aname=3\<close>.
\<close>

theorem export_url_collision:
  "(''3'', ''1&aname=2'') \<noteq> (''2&aname=3'', ''1'')
   \<and> export_url ''14/03/2024'' ''1&aname=2'' ''3'' = export_url ''14/03/2024'' ''1'' ''2&aname=3''"
  by (simp add: export_url_def)

text \<open>
  C9 (amended). For one date, two different pairs of display name and internal
  identifier give different URLs when neither internal identifier contains the
  character \<open>&\<close>.
\<close>

theorem export_url_injective:
  assumes "CHR ''&'' \<notin> set aid1" and "CHR ''&'' \<notin> set aid2"
    and "(aname1, aid1) \<noteq> (aname2, aid2)"
  shows "export_url D aid1 aname1 \<noteq> export_url D aid2 aname2"
proof
  assume "export_url D aid1 aname1 = export_url D aid2 aname2"
  with assms(1,2) have "aid1 = aid2 \<and> aname1 = aname2"
    by (rule export_url_eqD)
  with assms(3) show False
    by simp
qed

theorem export_url_injective_witness:
  "CHR ''&'' \<notin> set ''41'' \<and> CHR ''&'' \<notin> set ''42''
   \<and> (''ABC123'', ''41'') \<noteq> (''GHI789'', ''42'')
   \<and> export_url ''14/03/2024'' ''41'' ''ABC123'' \<noteq> export_url ''14/03/2024'' ''42'' ''GHI789''"
proof -
  have h1: "CHR ''&'' \<notin> set ''41''" and h2: "CHR ''&'' \<notin> set ''42''"
    and h3: "(''ABC123'', ''41'') \<noteq> (''GHI789'', ''42'')"
    by simp_all
  from h1 h2 h3 export_url_injective [OF h1 h2 h3, of "''14/03/2024''"] show ?thesis
    by (intro conjI)
qed

lemma digit_code: "of_char (digit n) = 48 + nat (n mod 10)"
proof -
  have "0 \<le> n mod 10" "n mod 10 < 10"
    by simp_all
  then have "n mod 10 = 0 \<or> n mod 10 = 1 \<or> n mod 10 = 2 \<or> n mod 10 = 3 \<or> n mod 10 = 4
      \<or> n mod 10 = 5 \<or> n mod 10 = 6 \<or> n mod 10 = 7 \<or> n mod 10 = 8 \<or> n mod 10 = 9"
    by arith
  then show ?thesis
    unfolding digit_def by (elim disjE) simp_all
qed

lemma strftime_codes:
  "map of_char (strftime_dmY d) =
     [48 + nat (day d div 10 mod 10), 48 + nat (day d mod 10), 47,
      48 + nat (month d div 10 mod 10), 48 + nat (month d mod 10), 47,
      48 + nat (year d div 1000 mod 10), 48 + nat (year d div 100 mod 10),
      48 + nat (year d div 10 mod 10), 48 + nat (year d mod 10 :: int) :: nat]"
  by (simp add: strftime_dmY_def two_digits_def four_digits_def digit_code)

subsection \<open>The trace only grows\<close>

lemma grows_ret: "\<exists>r. trace (snd (ret x w)) = trace w @ r"
  by (simp add: ret_def)

lemma grows_raise: "\<exists>r. trace (snd (raise e w)) = trace w @ r"
  by (simp add: raise_def)

lemma grows_call: "\<exists>r. trace (snd (call ev c w)) = trace w @ r"
  by (simp add: call_def split: prod.splits)

lemma grows_effect: "\<exists>r. trace (snd (effect ev f w)) = trace w @ r"
  by (simp add: effect_def)

lemma grows_print: "\<exists>r. trace (snd (print s w)) = trace w @ r"
  by (simp add: print_def grows_effect)

lemma grows_and_then:
  assumes m: "\<And>v. \<exists>r. trace (snd (m v)) = trace v @ r"
    and f: "\<And>x v. \<exists>r. trace (snd (f x v)) = trace v @ r"
  shows "\<exists>r. trace (snd (and_then m f w)) = trace w @ r"
proof (cases "m w")
  case (Pair res w')
  from m [of w] Pair obtain r1 where r1: "trace w' = trace w @ r1"
    by auto
  show ?thesis
  proof (cases res)
    case (Inl e)
    with Pair r1 show ?thesis
      by (simp add: and_then_def)
  next
    case (Inr x)
    from f [of x w'] obtain r2 where "trace (snd (f x w')) = trace w' @ r2"
      by auto
    with Pair Inr r1 show ?thesis
      by (simp add: and_then_def)
  qed
qed

lemma grows_max_loop: "\<exists>r. trace (snd (max_loop drv maxitem maxval items w)) = trace w @ r"
proof (induction items arbitrary: maxitem maxval w)
  case Nil
  show ?case
    by (simp add: grows_ret)
next
  case (Cons item items)
  show ?case
    unfolding max_loop.simps
    by (rule grows_and_then) (simp_all add: grows_call Cons.IH)
qed

lemma grows_max_getctime: "\<exists>r. trace (snd (max_getctime drv files w)) = trace w @ r"
proof (cases files)
  case Nil
  then show ?thesis
    by (simp add: max_getctime_def grows_raise)
next
  case (Cons item items)
  show ?thesis
    unfolding max_getctime_def Cons list.case
    by (rule grows_and_then) (simp_all add: grows_call grows_max_loop)
qed


lemma download_csv_trace:
  assumes "minus_one_day (datetime_now drv (browser w)) = Inr p"
  shows "\<exists>r. trace (snd (download_csv drv (aname, v) w)) =
    trace w @ [Datetime_now, Print ''Downloading CSV file'',
      Get (export_url (strftime_dmY p) (format_value v) aname)] @ r"
proof -
  let ?url = "export_url (strftime_dmY p) (format_value v) aname"
  let ?w1 = "\<lparr>trace = trace w @ [Datetime_now], browser = browser w\<rparr>"
  let ?w2 = "\<lparr>trace = trace w @ [Datetime_now, Print ''Downloading CSV file''], browser = browser w\<rparr>"
  let ?tail = "\<lambda>u :: unit.
    and_then (effect (Sleep 3) (sleep drv 3)) (\<lambda>_.
    and_then (call (Glob ''./*.csv'') (\<lambda>b. (Inr (glob drv ''./*.csv'' b), b))) (\<lambda>files.
    and_then (max_getctime drv files) (\<lambda>downloaded.
    and_then (call (Rename downloaded (newname aname downloaded))
                (rename drv downloaded (newname aname downloaded))) (\<lambda>_.
    print (''Downloaded file '' @ drop 2 (newname aname downloaded) @ [LF])))))"
  have 1: "call Datetime_now (\<lambda>b. (Inr (datetime_now drv b), b)) w =
      (Inr (datetime_now drv (browser w)), ?w1)"
    by (simp add: call_def)
  have 2: "lift (minus_one_day (datetime_now drv (browser w))) ?w1 = (Inr p, ?w1)"
    by (simp add: lift_def assms)
  have 3: "print ''Downloading CSV file'' ?w1 = (Inr (), ?w2)"
    by (simp add: print_def effect_def)
  have d: "download_csv drv (aname, v) w = and_then (call (Get ?url) (get drv ?url)) ?tail ?w2"
    unfolding download_csv_def Let_def fst_conv snd_conv
    by (simp only:
        and_then_Inr [where m = "call Datetime_now (\<lambda>b. (Inr (datetime_now drv b), b))" and w = w, OF 1]
        and_then_Inr [where m = "lift (minus_one_day (datetime_now drv (browser w)))" and w = ?w1, OF 2]
        and_then_Inr [where m = "print ''Downloading CSV file''" and w = ?w1, OF 3])
  have tail: "\<exists>r. trace (snd (?tail u x)) = trace x @ r" for u x
    by (intro grows_and_then grows_effect grows_call grows_max_getctime grows_print)
  obtain res b' where g: "get drv ?url (browser w) = (res, b')"
    by (cases "get drv ?url (browser w)")
  let ?w3 = "\<lparr>trace = trace w @ [Datetime_now, Print ''Downloading CSV file'', Get ?url], browser = b'\<rparr>"
  have c: "call (Get ?url) (get drv ?url) ?w2 = (res, ?w3)"
    using g by (simp add: call_def)
  show ?thesis
  proof (cases res)
    case (Inl e)
    with c have "download_csv drv (aname, v) w = (Inl e, ?w3)"
      unfolding d by (simp add: and_then_def)
    then show ?thesis
      by simp
  next
    case (Inr u)
    with c have "download_csv drv (aname, v) w = ?tail u ?w3"
      unfolding d by (simp add: and_then_def)
    moreover from tail [where x = ?w3] obtain r where "trace (snd (?tail u ?w3)) = trace ?w3 @ r"
      by blast
    ultimately show ?thesis
      by simp
  qed
qed


text \<open>
  C3. The date in the export URL is the calendar day before the clock reading taken in
  download\_csv: a valid date whose day number is one less than today's, written as two
  digits of the day, a slash, two digits of the month, a slash and four digits of the
  year. The request that download\_csv sends carries this one string after both
  \<open>sdate=\<close> and \<open>edate=\<close>. For the clock reading 2024-03-15 10:00:00 the string is
  \<open>14/03/2024\<close>.
\<close>

theorem download_csv_date_bound:
  assumes "valid_datetime (datetime_now drv (browser w))"
    and "\<not> (year (datetime_now drv (browser w)) = 1 \<and> month (datetime_now drv (browser w)) = 1
           \<and> day (datetime_now drv (browser w)) = 1)"
  shows "(\<exists>p. minus_one_day (datetime_now drv (browser w)) = Inr p \<and> valid_datetime p
      \<and> toordinal p = toordinal (datetime_now drv (browser w)) - 1
      \<and> (\<exists>r. trace (snd (download_csv drv (aname, Some aid) w)) =
            trace w @ [Datetime_now, Print ''Downloading CSV file'',
              Get (''https://www.dennisconnect.co.uk/_handler/csv.ashx?req=HISTORY_LIST&sdate=''
                @ strftime_dmY p @ ''%2000:00&edate='' @ strftime_dmY p
                @ ''%2023:59&atype=V&aid='' @ aid @ ''&aname='' @ aname
                @ ''&locfil=&useshape=false&dtl=0&s2r=false&showdriverbehavioralerts=false'')] @ r)
      \<and> map of_char (strftime_dmY p) =
            [48 + nat (day p div 10 mod 10), 48 + nat (day p mod 10), 47,
             48 + nat (month p div 10 mod 10), 48 + nat (month p mod 10), 47,
             48 + nat (year p div 1000 mod 10), 48 + nat (year p div 100 mod 10),
             48 + nat (year p div 10 mod 10), 48 + nat (year p mod 10 :: int) :: nat])
    \<and> minus_one_day \<lparr>year = 2024, month = 3, day = 15, hour = 10, minute = 0, second = 0,
          microsecond = 0\<rparr>
        = Inr \<lparr>year = 2024, month = 3, day = 14, hour = 10, minute = 0, second = 0,
          microsecond = 0\<rparr>
    \<and> strftime_dmY \<lparr>year = 2024, month = 3, day = 14, hour = 10, minute = 0, second = 0,
          microsecond = 0\<rparr> = ''14/03/2024''"
proof -
  from minus_one_day_ok [OF assms] obtain p
    where p: "minus_one_day (datetime_now drv (browser w)) = Inr p" "valid_datetime p"
      "toordinal p = toordinal (datetime_now drv (browser w)) - 1"
    by blast
  from download_csv_trace [OF p(1), of aname "Some aid"]
  have t: "\<exists>r. trace (snd (download_csv drv (aname, Some aid) w)) =
      trace w @ [Datetime_now, Print ''Downloading CSV file'',
        Get (''https://www.dennisconnect.co.uk/_handler/csv.ashx?req=HISTORY_LIST&sdate=''
          @ strftime_dmY p @ ''%2000:00&edate='' @ strftime_dmY p
          @ ''%2023:59&atype=V&aid='' @ aid @ ''&aname='' @ aname
          @ ''&locfil=&useshape=false&dtl=0&s2r=false&showdriverbehavioralerts=false'')] @ r"
    by (simp add: export_url_def format_value_def)
  have e: "minus_one_day \<lparr>year = 2024, month = 3, day = 15, hour = 10, minute = 0, second = 0,
        microsecond = 0\<rparr>
      = Inr \<lparr>year = 2024, month = 3, day = 14, hour = 10, minute = 0, second = 0,
        microsecond = 0\<rparr>"
    by (simp add: minus_one_day_def)
  have f: "strftime_dmY \<lparr>year = 2024, month = 3, day = 14, hour = 10, minute = 0, second = 0,
        microsecond = 0\<rparr> = ''14/03/2024''"
    by (simp add: strftime_dmY_def two_digits_def four_digits_def digit_def)
  from p t strftime_codes [of p] have "\<exists>p. minus_one_day (datetime_now drv (browser w)) = Inr p
      \<and> valid_datetime p
      \<and> toordinal p = toordinal (datetime_now drv (browser w)) - 1
      \<and> (\<exists>r. trace (snd (download_csv drv (aname, Some aid) w)) =
            trace w @ [Datetime_now, Print ''Downloading CSV file'',
              Get (''https://www.dennisconnect.co.uk/_handler/csv.ashx?req=HISTORY_LIST&sdate=''
                @ strftime_dmY p @ ''%2000:00&edate='' @ strftime_dmY p
                @ ''%2023:59&atype=V&aid='' @ aid @ ''&aname='' @ aname
                @ ''&locfil=&useshape=false&dtl=0&s2r=false&showdriverbehavioralerts=false'')] @ r)
      \<and> map of_char (strftime_dmY p) =
            [48 + nat (day p div 10 mod 10), 48 + nat (day p mod 10), 47,
             48 + nat (month p div 10 mod 10), 48 + nat (month p mod 10), 47,
             48 + nat (year p div 1000 mod 10), 48 + nat (year p div 100 mod 10),
             48 + nat (year p div 10 mod 10), 48 + nat (year p mod 10 :: int) :: nat]"
    by (intro exI [of _ p] conjI)
  with e f show ?thesis
    by (intro conjI)
qed

theorem download_csv_date_bound_witness:
  "valid_datetime (datetime_now (scripted [] []) (browser start))
   \<and> \<not> (year (datetime_now (scripted [] []) (browser start)) = 1
         \<and> month (datetime_now (scripted [] []) (browser start)) = 1
         \<and> day (datetime_now (scripted [] []) (browser start)) = 1)
   \<and> (\<exists>r. trace (snd (download_csv (scripted [] []) (''ABC123'', Some ''42'') start)) =
         [Datetime_now, Print ''Downloading CSV file'',
          Get (''https://www.dennisconnect.co.uk/_handler/csv.ashx?req=HISTORY_LIST&sdate=14/03/2024''
            @ ''%2000:00&edate=14/03/2024%2023:59&atype=V&aid=42&aname=ABC123''
            @ ''&locfil=&useshape=false&dtl=0&s2r=false&showdriverbehavioralerts=false'')] @ r)"
proof -
  let ?d = "scripted [] [] :: unit driver"
  have n: "datetime_now ?d (browser start) = fixed_now"
    by (simp add: scripted_def)
  have h1: "valid_datetime (datetime_now ?d (browser start))"
    unfolding n by (simp add: valid_datetime_def fixed_now_def days_in_month_def)
  have h2: "\<not> (year (datetime_now ?d (browser start)) = 1
      \<and> month (datetime_now ?d (browser start)) = 1 \<and> day (datetime_now ?d (browser start)) = 1)"
    unfolding n by (simp add: fixed_now_def)
  have m: "minus_one_day fixed_now = Inr (fixed_now\<lparr>day := 14\<rparr>)"
    by (simp add: minus_one_day_def fixed_now_def)
  have s: "strftime_dmY (fixed_now\<lparr>day := 14\<rparr>) = ''14/03/2024''"
    by (simp add: fixed_now_def strftime_dmY_def two_digits_def four_digits_def digit_def)
  from download_csv_date_bound [OF h1 h2, of "''ABC123''" "''42''"]
  have "\<exists>r. trace (snd (download_csv ?d (''ABC123'', Some ''42'') start)) =
      [Datetime_now, Print ''Downloading CSV file'',
       Get (''https://www.dennisconnect.co.uk/_handler/csv.ashx?req=HISTORY_LIST&sdate=14/03/2024''
         @ ''%2000:00&edate=14/03/2024%2023:59&atype=V&aid=42&aname=ABC123''
         @ ''&locfil=&useshape=false&dtl=0&s2r=false&showdriverbehavioralerts=false'')] @ r"
    unfolding n m by (auto simp add: s start_def)
  with h1 h2 show ?thesis
    by (intro conjI)
qed

subsection \<open>Running the pieces of the script\<close>

lemma for_vehicles_first_error:
  assumes "for_vehicles drv earlier w0 = (Inr (), w1)"
    and "iteration drv vehicle w1 = (Inl exc, w2)"
  shows "for_vehicles drv (earlier @ vehicle # rest) w0 = (Inl exc, w2)"
  using assms by (simp add: for_vehicles_append and_then_def)

lemma try_except_first_error:
  assumes "setup_driver drv True directory w = (Inr (), w0)"
    and "for_vehicles drv earlier w0 = (Inr (), w1)"
    and "iteration drv vehicle w1 = (Inl exc, w2)"
  shows "try_except drv (earlier @ vehicle # rest) w =
    (if handled exc
     then (Inr (), \<lparr>trace = trace w2 @ [Logging_exception exc],
                     browser = logging_exception drv exc (browser w2)\<rparr>)
     else (Inl exc, w2))"
proof -
  have "try_body drv (earlier @ vehicle # rest) w = (Inl exc, w2)"
    unfolding try_body_def
    using assms(1) for_vehicles_first_error [OF assms(2,3)] by (simp add: and_then_def)
  then show ?thesis
    by (simp add: try_except_def effect_def)
qed

lemma main_runs_try:
  assumes "basicConfig drv ''./get_routes.log'' (browser v) = (Inr (), b1)"
    and "read_text drv ''./vehicles_list.txt'' b1 = (Inr content, b2)"
  shows "main drv v =
    try_except drv (vehicles_of_lines (readlines content))
      \<lparr>trace = trace v @ [BasicConfig ''./get_routes.log'', Read_text ''./vehicles_list.txt''],
       browser = b2\<rparr>"
  using assms by (simp add: main_def get_vehicles_def and_then_def call_def ret_def)

lemma go_to_history_unfold:
  "go_to_history drv w =
    (case find_element_by_xpath drv history_tab (browser w) of
      (Inl e, b1) \<Rightarrow>
        (Inl e, \<lparr>trace = trace w @ [Find_element_by_xpath history_tab], browser = b1\<rparr>)
    | (Inr tab, b1) \<Rightarrow>
      (case click drv tab b1 of
        (Inl e, b2) \<Rightarrow>
          (Inl e, \<lparr>trace = trace w @ [Find_element_by_xpath history_tab, Click tab],
                    browser = b2\<rparr>)
      | (Inr u, b2) \<Rightarrow>
        (case switch_to_frame drv ''tab4frame'' b2 of
          (Inl e, b3) \<Rightarrow>
            (Inl e, \<lparr>trace = trace w @ [Find_element_by_xpath history_tab, Click tab,
                        Switch_to_frame ''tab4frame''], browser = b3\<rparr>)
        | (Inr u, b3) \<Rightarrow>
          (case wait_for_visibility drv 10 ''ctl00_cphcontent_htPingList'' b3 of
            (Inl e, b4) \<Rightarrow>
              (Inl e, \<lparr>trace = trace w @ [Find_element_by_xpath history_tab, Click tab,
                          Switch_to_frame ''tab4frame'',
                          Wait_for_visibility 10 ''ctl00_cphcontent_htPingList''],
                        browser = b4\<rparr>)
          | (Inr None, b4) \<Rightarrow>
              (Inl TimeoutException,
                \<lparr>trace = trace w @ [Find_element_by_xpath history_tab, Click tab,
                          Switch_to_frame ''tab4frame'',
                          Wait_for_visibility 10 ''ctl00_cphcontent_htPingList''],
                        browser = b4\<rparr>)
          | (Inr (Some ping_list), b4) \<Rightarrow>
              (fst (click drv ping_list b4),
                \<lparr>trace = trace w @ [Find_element_by_xpath history_tab, Click tab,
                          Switch_to_frame ''tab4frame'',
                          Wait_for_visibility 10 ''ctl00_cphcontent_htPingList'',
                          Click ping_list],
                        browser = snd (click drv ping_list b4)\<rparr>)))))"
  by (simp add: go_to_history_def until_visible_def and_then_def call_def raise_def ret_def
      split: prod.splits sum.splits option.splits)

lemma get_vehicle_id_unmatched:
  assumes "find_element_by_id drv ''ctl00_cphcontent_ddlVehicle'' (browser w) = (Inr dropdown, b1)"
    and "select drv dropdown b1 = (Inr (), b2)"
    and "select_by_visible_text drv dropdown vehicle b2 = (Inl NoSuchElementException, b3)"
  shows "get_vehicle_id drv vehicle w =
    (Inl NoSuchElementException,
     \<lparr>trace = trace w @ [Print (''Finding history for '' @ vehicle),
        Find_element_by_id ''ctl00_cphcontent_ddlVehicle'', Select dropdown,
        Select_by_visible_text dropdown vehicle], browser = b3\<rparr>)"
  using assms
  by (simp add: get_vehicle_id_def and_then_def call_def print_def effect_def)

lemma iteration_unmatched:
  assumes "login drv ''####'' ''####'' ''####'' w1 = (Inr (), wl)"
    and "go_to_history drv wl = (Inr (), wh)"
    and "get_vehicle_id drv vehicle wh = (Inl exc, w2)"
  shows "iteration drv vehicle w1 = (Inl exc, w2)"
  using assms by (simp add: iteration_def and_then_def)

lemma download_csv_no_files:
  assumes "minus_one_day (datetime_now drv (browser w)) = Inr p"
    and "get drv (export_url (strftime_dmY p) (format_value v) aname) (browser w) = (Inr (), b1)"
    and "glob drv ''./*.csv'' (sleep drv 3 b1) = []"
  shows "download_csv drv (aname, v) w =
    (Inl ValueError,
     \<lparr>trace = trace w @ [Datetime_now, Print ''Downloading CSV file'',
        Get (export_url (strftime_dmY p) (format_value v) aname), Sleep 3, Glob ''./*.csv''],
      browser = sleep drv 3 b1\<rparr>)"
  using assms
  by (simp add: download_csv_def Let_def and_then_def call_def lift_def print_def effect_def
      max_getctime_def raise_def)

subsection \<open>The claims about errors\<close>

text \<open>
  C5 (as the specification states it, refuted). With no file matching \<open>./*.csv\<close> in the
  directory, download\_csv does not end silently: \<open>max\<close> of the empty list raises
  \<open>ValueError\<close>, and the whole run ends with that exception unhandled.
\<close>

theorem download_csv_empty_directory:
  "glob (scripted [''ABC123'', ''GHI789''] []) ''./*.csv'' (browser start) = []
   \<and> fst (download_csv (scripted [''ABC123'', ''GHI789''] []) (''ABC123'', Some ''42'') start)
       = Inl ValueError
   \<and> fst (download_csv (scripted [''ABC123'', ''GHI789''] []) (''ABC123'', Some ''42'') start)
       \<noteq> Inr ()
   \<and> fst (main (scripted [''ABC123'', ''GHI789''] []) start) = Inl ValueError"
  by code_simp

text \<open>
  C5 (amended). When the request succeeds and no file matches \<open>./*.csv\<close> after the
  sleep, download\_csv raises \<open>ValueError\<close>: it has sent the request, slept and listed
  the directory, and it reads no creation time and renames nothing. The handler of the
  script body does not name \<open>ValueError\<close>, so the \<^verbatim>\<open>try\<close> statement lets it through.
\<close>

theorem download_csv_without_csv_raises:
  assumes "minus_one_day (datetime_now drv (browser w)) = Inr p"
    and "get drv (export_url (strftime_dmY p) (format_value v) aname) (browser w) = (Inr (), b1)"
    and "glob drv ''./*.csv'' (sleep drv 3 b1) = []"
  shows "download_csv drv (aname, v) w =
      (Inl ValueError,
       \<lparr>trace = trace w @ [Datetime_now, Print ''Downloading CSV file'',
          Get (export_url (strftime_dmY p) (format_value v) aname), Sleep 3, Glob ''./*.csv''],
        browser = sleep drv 3 b1\<rparr>)
    \<and> \<not> handled ValueError
    \<and> (\<forall>vehicles u u'. try_body drv vehicles u = (Inl ValueError, u') \<longrightarrow>
          try_except drv vehicles u = (Inl ValueError, u'))"
proof -
  have "\<not> handled ValueError"
    by simp
  moreover have "try_except drv vehicles u = (Inl ValueError, u')"
    if "try_body drv vehicles u = (Inl ValueError, u')" for vehicles u u'
    using that by (simp add: try_except_def)
  ultimately show ?thesis
    using download_csv_no_files [OF assms] by blast
qed

theorem download_csv_without_csv_raises_witness:
  "minus_one_day (datetime_now (scripted [] []) (browser start)) = Inr (fixed_now\<lparr>day := 14\<rparr>)
   \<and> get (scripted [] []) (export_url (strftime_dmY (fixed_now\<lparr>day := 14\<rparr>))
         (format_value (Some ''42'')) ''ABC123'') (browser start) = (Inr (), ())
   \<and> glob (scripted [] []) ''./*.csv'' (sleep (scripted [] []) 3 ()) = []
   \<and> download_csv (scripted [] []) (''ABC123'', Some ''42'') start =
       (Inl ValueError,
        \<lparr>trace = trace start @ [Datetime_now, Print ''Downloading CSV file'',
           Get (export_url (strftime_dmY (fixed_now\<lparr>day := 14\<rparr>)) (format_value (Some ''42''))
             ''ABC123''), Sleep 3, Glob ''./*.csv''],
         browser = sleep (scripted [] []) 3 ()\<rparr>)"
proof -
  let ?d = "scripted [] [] :: unit driver"
  have h1: "minus_one_day (datetime_now ?d (browser start)) = Inr (fixed_now\<lparr>day := 14\<rparr>)"
    by (simp add: scripted_def minus_one_day_def fixed_now_def)
  have h2: "get ?d (export_url (strftime_dmY (fixed_now\<lparr>day := 14\<rparr>))
      (format_value (Some ''42'')) ''ABC123'') (browser start) = (Inr (), ())"
    by (simp add: scripted_def)
  have h3: "glob ?d ''./*.csv'' (sleep ?d 3 ()) = []"
    by (simp add: scripted_def)
  from download_csv_without_csv_raises [OF h1 h2 h3]
  have "download_csv ?d (''ABC123'', Some ''42'') start =
      (Inl ValueError,
       \<lparr>trace = trace start @ [Datetime_now, Print ''Downloading CSV file'',
          Get (export_url (strftime_dmY (fixed_now\<lparr>day := 14\<rparr>)) (format_value (Some ''42''))
            ''ABC123''), Sleep 3, Glob ''./*.csv''],
        browser = sleep ?d 3 ()\<rparr>)"
    by (rule conjunct1)
  with h1 h2 h3 show ?thesis
    by (intro conjI)
qed

text \<open>
  C6 (as the specification states it, refuted). A timeout of go\_to\_history and a
  control that does not become visible are not the same thing. In a session where the
  History tab is missing and the control never becomes visible, go\_to\_history fails
  with \<open>NoSuchElementException\<close>, not with \<open>TimeoutException\<close>, and never waits. In a
  session where the control is visible but the click on the tab itself raises
  \<open>TimeoutException\<close>, go\_to\_history fails with \<open>TimeoutException\<close> before any wait.
\<close>

theorem go_to_history_timeout_not_iff:
  "wait_for_visibility tab_missing 10 ''ctl00_cphcontent_htPingList'' () = (Inr None, ())
   \<and> go_to_history tab_missing start =
       (Inl NoSuchElementException,
        \<lparr>trace = [Find_element_by_xpath history_tab], browser = ()\<rparr>)
   \<and> fst (go_to_history tab_missing start) \<noteq> Inl TimeoutException
   \<and> wait_for_visibility click_times_out 10 ''ctl00_cphcontent_htPingList'' ()
       = (Inr (Some 3), ())
   \<and> go_to_history click_times_out start =
       (Inl TimeoutException,
        \<lparr>trace = [Find_element_by_xpath history_tab, Click 2], browser = ()\<rparr>)"
  by (simp add: go_to_history_unfold tab_missing_def click_times_out_def scripted_def start_def)

text \<open>
  C6 (amended). go\_to\_history fails with \<open>TimeoutException\<close> exactly when one of its
  driver commands (finding the tab, clicking it, switching the frame, the polling of the
  wait, the click on the control) itself raises \<open>TimeoutException\<close>, or it reaches its
  wait (the tab is found and clicked, the frame is entered) and the awaited control does
  not become visible within the bound 10. In the second case it has waited once and
  clicked nothing after the wait. When finding the tab, clicking it or switching the
  frame fails, go\_to\_history fails with that exception and does not wait. When it
  succeeds it has waited once, with the bound 10, and then clicked once, on the element
  the wait returned: there is no loop around the wait.
\<close>

theorem go_to_history_timeout:
  "(fst (go_to_history drv w) = Inl TimeoutException \<longleftrightarrow>
      fst (find_element_by_xpath drv history_tab (browser w)) = Inl TimeoutException
    \<or> (\<exists>tab b1. find_element_by_xpath drv history_tab (browser w) = (Inr tab, b1)
        \<and> (fst (click drv tab b1) = Inl TimeoutException
          \<or> (\<exists>b2. click drv tab b1 = (Inr (), b2)
              \<and> (fst (switch_to_frame drv ''tab4frame'' b2) = Inl TimeoutException
                \<or> (\<exists>b3. switch_to_frame drv ''tab4frame'' b2 = (Inr (), b3)
                    \<and> (fst (wait_for_visibility drv 10 ''ctl00_cphcontent_htPingList'' b3)
                          = Inl TimeoutException
                      \<or> (\<exists>b4. wait_for_visibility drv 10 ''ctl00_cphcontent_htPingList'' b3
                            = (Inr None, b4))
                      \<or> (\<exists>ping_list b4.
                            wait_for_visibility drv 10 ''ctl00_cphcontent_htPingList'' b3
                              = (Inr (Some ping_list), b4)
                          \<and> fst (click drv ping_list b4) = Inl TimeoutException))))))))
   \<and> (\<forall>tab b1 b2 b3 b4.
          find_element_by_xpath drv history_tab (browser w) = (Inr tab, b1)
        \<and> click drv tab b1 = (Inr (), b2)
        \<and> switch_to_frame drv ''tab4frame'' b2 = (Inr (), b3)
        \<and> wait_for_visibility drv 10 ''ctl00_cphcontent_htPingList'' b3 = (Inr None, b4)
      \<longrightarrow> go_to_history drv w =
            (Inl TimeoutException,
             \<lparr>trace = trace w @ [Find_element_by_xpath history_tab, Click tab,
                Switch_to_frame ''tab4frame'',
                Wait_for_visibility 10 ''ctl00_cphcontent_htPingList''], browser = b4\<rparr>))
   \<and> (\<forall>e b1. find_element_by_xpath drv history_tab (browser w) = (Inl e, b1)
      \<longrightarrow> go_to_history drv w =
            (Inl e, \<lparr>trace = trace w @ [Find_element_by_xpath history_tab], browser = b1\<rparr>))
   \<and> (\<forall>tab b1 e b2.
          find_element_by_xpath drv history_tab (browser w) = (Inr tab, b1)
        \<and> click drv tab b1 = (Inl e, b2)
      \<longrightarrow> go_to_history drv w =
            (Inl e, \<lparr>trace = trace w @ [Find_element_by_xpath history_tab, Click tab],
                      browser = b2\<rparr>))
   \<and> (\<forall>tab b1 b2 e b3.
          find_element_by_xpath drv history_tab (browser w) = (Inr tab, b1)
        \<and> click drv tab b1 = (Inr (), b2)
        \<and> switch_to_frame drv ''tab4frame'' b2 = (Inl e, b3)
      \<longrightarrow> go_to_history drv w =
            (Inl e, \<lparr>trace = trace w @ [Find_element_by_xpath history_tab, Click tab,
                        Switch_to_frame ''tab4frame''], browser = b3\<rparr>))
   \<and> (fst (go_to_history drv w) = Inr () \<longrightarrow>
        (\<exists>tab ping_list b b'.
            wait_for_visibility drv 10 ''ctl00_cphcontent_htPingList'' b = (Inr (Some ping_list), b')
          \<and> trace (snd (go_to_history drv w)) =
             trace w @ [Find_element_by_xpath history_tab, Click tab,
               Switch_to_frame ''tab4frame'',
               Wait_for_visibility 10 ''ctl00_cphcontent_htPingList'', Click ping_list]))"
proof -
  obtain r1 b1 where s1: "find_element_by_xpath drv history_tab (browser w) = (r1, b1)"
    by (cases "find_element_by_xpath drv history_tab (browser w)")
  show ?thesis
  proof (cases r1)
    case (Inl e)
    with s1 show ?thesis
      by (simp add: go_to_history_unfold)
  next
    case tab: (Inr tab)
    obtain r2 b2 where s2: "click drv tab b1 = (r2, b2)"
      by (cases "click drv tab b1")
    show ?thesis
    proof (cases r2)
      case (Inl e)
      with s1 tab s2 show ?thesis
        by (simp add: go_to_history_unfold)
    next
      case u2: (Inr u2)
      obtain r3 b3 where s3: "switch_to_frame drv ''tab4frame'' b2 = (r3, b3)"
        by (cases "switch_to_frame drv ''tab4frame'' b2")
      show ?thesis
      proof (cases r3)
        case (Inl e)
        with s1 tab s2 u2 s3 show ?thesis
          by (simp add: go_to_history_unfold)
      next
        case u3: (Inr u3)
        obtain r4 b4 where
          s4: "wait_for_visibility drv 10 ''ctl00_cphcontent_htPingList'' b3 = (r4, b4)"
          by (cases "wait_for_visibility drv 10 ''ctl00_cphcontent_htPingList'' b3")
        show ?thesis
        proof (cases r4)
          case (Inl e)
          with s1 tab s2 u2 s3 u3 s4 show ?thesis
            by (simp add: go_to_history_unfold)
        next
          case v: (Inr v)
          show ?thesis
          proof (cases v)
            case None
            with s1 tab s2 u2 s3 u3 s4 v show ?thesis
              by (simp add: go_to_history_unfold)
          next
            case (Some ping_list)
            with s1 tab s2 u2 s3 u3 s4 v show ?thesis
              by (auto simp add: go_to_history_unfold)
          qed
        qed
      qed
    qed
  qed
qed

theorem go_to_history_timeout_witness:
  "find_element_by_xpath never_visible history_tab (browser start) = (Inr 2, ())
   \<and> click never_visible 2 () = (Inr (), ())
   \<and> switch_to_frame never_visible ''tab4frame'' () = (Inr (), ())
   \<and> wait_for_visibility never_visible 10 ''ctl00_cphcontent_htPingList'' () = (Inr None, ())
   \<and> go_to_history never_visible start =
       (Inl TimeoutException,
        \<lparr>trace = trace start @ [Find_element_by_xpath history_tab, Click 2,
           Switch_to_frame ''tab4frame'',
           Wait_for_visibility 10 ''ctl00_cphcontent_htPingList''], browser = ()\<rparr>)
   \<and> fst (go_to_history (scripted [] []) start) = Inr ()
   \<and> (\<exists>tab ping_list b b'.
          wait_for_visibility (scripted [] []) 10 ''ctl00_cphcontent_htPingList'' b
            = (Inr (Some ping_list), b')
        \<and> trace (snd (go_to_history (scripted [] []) start)) =
           trace start @ [Find_element_by_xpath history_tab, Click tab,
             Switch_to_frame ''tab4frame'',
             Wait_for_visibility 10 ''ctl00_cphcontent_htPingList'', Click ping_list])"
proof -
  have h: "find_element_by_xpath never_visible history_tab (browser start) = (Inr 2, ())
      \<and> click never_visible 2 () = (Inr (), ())
      \<and> switch_to_frame never_visible ''tab4frame'' () = (Inr (), ())
      \<and> wait_for_visibility never_visible 10 ''ctl00_cphcontent_htPingList'' () = (Inr None, ())"
    by (simp add: never_visible_def scripted_def)
  from go_to_history_timeout [of never_visible start] h
  have a: "go_to_history never_visible start =
      (Inl TimeoutException,
       \<lparr>trace = trace start @ [Find_element_by_xpath history_tab, Click 2,
          Switch_to_frame ''tab4frame'',
          Wait_for_visibility 10 ''ctl00_cphcontent_htPingList''], browser = ()\<rparr>)"
    by blast
  have s: "fst (go_to_history (scripted [] []) start) = Inr ()"
    by code_simp
  from go_to_history_timeout [of "scripted [] []" start] s
  have b: "\<exists>tab ping_list b b'.
        wait_for_visibility (scripted [] []) 10 ''ctl00_cphcontent_htPingList'' b
          = (Inr (Some ping_list), b')
      \<and> trace (snd (go_to_history (scripted [] []) start)) =
         trace start @ [Find_element_by_xpath history_tab, Click tab,
           Switch_to_frame ''tab4frame'',
           Wait_for_visibility 10 ''ctl00_cphcontent_htPingList'', Click ping_list]"
    by blast
  from h a s b show ?thesis
    by blast
qed

text \<open>
  C7 (as the specification states it, refuted). The handler catches more than the two
  classes it names: an exception of a class derived from one of them is caught too. In a
  session where a lookup raises \<open>InvalidSelectorException\<close>, which is neither of the two
  classes but a subclass of \<open>NoSuchElementException\<close> in Selenium 3, the run does not end
  with that exception unhandled: it is logged and the process ends normally.
\<close>

theorem invalid_selector_is_caught:
  "InvalidSelectorException \<noteq> NoSuchElementException
   \<and> InvalidSelectorException \<noteq> TimeoutException
   \<and> find_element_by_xpath invalid_selector history_tab () = (Inl InvalidSelectorException, ())
   \<and> fst (main invalid_selector start) = Inr ()
   \<and> fst (main invalid_selector start) \<noteq> Inl InvalidSelectorException
   \<and> last (trace (snd (main invalid_selector start))) = Logging_exception InvalidSelectorException"
  by code_simp

text \<open>
  C7 (amended). For every vehicle list the file yields: when the body of the loop
  succeeds for the vehicles before some vehicle and raises for that one, the run ends
  there. If the exception is a \<open>NoSuchElementException\<close> or a \<open>TimeoutException\<close>, that
  is, an instance of one of the two classes or of a class derived from one of them, the
  handler of the script body logs it once and the process ends normally; an exception of
  any class not derived from these two leaves the process unhandled, with nothing
  logged. In both cases the final state is the state at the failure (plus the log entry):
  nothing is done for the vehicles after the failing one.
\<close>

theorem batch_stops_at_first_error:
  assumes "basicConfig drv ''./get_routes.log'' (browser v) = (Inr (), b1)"
    and "read_text drv ''./vehicles_list.txt'' b1 = (Inr content, b2)"
    and "vehicles_of_lines (readlines content) = earlier @ vehicle # rest"
    and "setup_driver drv True directory
          \<lparr>trace = trace v @ [BasicConfig ''./get_routes.log'', Read_text ''./vehicles_list.txt''],
           browser = b2\<rparr> = (Inr (), w0)"
    and "for_vehicles drv earlier w0 = (Inr (), w1)"
    and "iteration drv vehicle w1 = (Inl exc, w2)"
  shows "main drv v =
      (if handled exc
       then (Inr (), \<lparr>trace = trace w2 @ [Logging_exception exc],
                       browser = logging_exception drv exc (browser w2)\<rparr>)
       else (Inl exc, w2))
    \<and> handled NoSuchElementException \<and> handled TimeoutException
    \<and> (\<forall>name bases. handled (OtherException name bases) \<longleftrightarrow> (\<exists>base \<in> set bases. handled base))
    \<and> \<not> handled ValueError \<and> \<not> handled OverflowError"
proof -
  have "main drv v =
      (if handled exc
       then (Inr (), \<lparr>trace = trace w2 @ [Logging_exception exc],
                       browser = logging_exception drv exc (browser w2)\<rparr>)
       else (Inl exc, w2))"
    unfolding main_runs_try [OF assms(1,2)] assms(3)
    by (rule try_except_first_error [OF assms(4,5,6)])
  then show ?thesis
    by simp
qed

theorem batch_stops_at_first_error_witness:
  "(\<exists>b1 b2 content w0 w1 w2.
      basicConfig (scripted [] [(''./a.csv'', 1)]) ''./get_routes.log'' (browser start) = (Inr (), b1)
    \<and> read_text (scripted [] [(''./a.csv'', 1)]) ''./vehicles_list.txt'' b1 = (Inr content, b2)
    \<and> vehicles_of_lines (readlines content) = [] @ ''ABC123'' # [''GHI789'']
    \<and> setup_driver (scripted [] [(''./a.csv'', 1)]) True directory
          \<lparr>trace = trace start @ [BasicConfig ''./get_routes.log'',
             Read_text ''./vehicles_list.txt''], browser = b2\<rparr> = (Inr (), w0)
    \<and> for_vehicles (scripted [] [(''./a.csv'', 1)]) [] w0 = (Inr (), w1)
    \<and> iteration (scripted [] [(''./a.csv'', 1)]) ''ABC123'' w1 = (Inl NoSuchElementException, w2)
    \<and> main (scripted [] [(''./a.csv'', 1)]) start =
        (Inr (), \<lparr>trace = trace w2 @ [Logging_exception NoSuchElementException],
                   browser = logging_exception (scripted [] [(''./a.csv'', 1)])
                     NoSuchElementException (browser w2)\<rparr>))
   \<and> (\<exists>b1 b2 content w0 w1 w2.
      basicConfig (scripted [''ABC123'', ''GHI789''] []) ''./get_routes.log'' (browser start)
        = (Inr (), b1)
    \<and> read_text (scripted [''ABC123'', ''GHI789''] []) ''./vehicles_list.txt'' b1 = (Inr content, b2)
    \<and> vehicles_of_lines (readlines content) = [] @ ''ABC123'' # [''GHI789'']
    \<and> setup_driver (scripted [''ABC123'', ''GHI789''] []) True directory
          \<lparr>trace = trace start @ [BasicConfig ''./get_routes.log'',
             Read_text ''./vehicles_list.txt''], browser = b2\<rparr> = (Inr (), w0)
    \<and> for_vehicles (scripted [''ABC123'', ''GHI789''] []) [] w0 = (Inr (), w1)
    \<and> iteration (scripted [''ABC123'', ''GHI789''] []) ''ABC123'' w1 = (Inl ValueError, w2)
    \<and> main (scripted [''ABC123'', ''GHI789''] []) start = (Inl ValueError, w2))
   \<and> (\<exists>b1 b2 content w0 w1 w2.
      basicConfig invalid_selector ''./get_routes.log'' (browser start) = (Inr (), b1)
    \<and> read_text invalid_selector ''./vehicles_list.txt'' b1 = (Inr content, b2)
    \<and> vehicles_of_lines (readlines content) = [] @ ''ABC123'' # [''GHI789'']
    \<and> setup_driver invalid_selector True directory
          \<lparr>trace = trace start @ [BasicConfig ''./get_routes.log'',
             Read_text ''./vehicles_list.txt''], browser = b2\<rparr> = (Inr (), w0)
    \<and> for_vehicles invalid_selector [] w0 = (Inr (), w1)
    \<and> iteration invalid_selector ''ABC123'' w1 = (Inl InvalidSelectorException, w2)
    \<and> main invalid_selector start =
        (Inr (), \<lparr>trace = trace w2 @ [Logging_exception InvalidSelectorException],
                   browser = logging_exception invalid_selector
                     InvalidSelectorException (browser w2)\<rparr>))
   \<and> Print ''Finding history for GHI789''
        \<notin> set (trace (snd (main (scripted [] [(''./a.csv'', 1)]) start)))
   \<and> Print ''Finding history for GHI789''
        \<notin> set (trace (snd (main (scripted [''ABC123'', ''GHI789''] []) start)))
   \<and> Print ''Finding history for GHI789''
        \<notin> set (trace (snd (main invalid_selector start)))"
proof -
  let ?v = "\<lparr>trace = trace start @ [BasicConfig ''./get_routes.log'',
      Read_text ''./vehicles_list.txt''], browser = ()\<rparr>"
  let ?a = "scripted [] [(''./a.csv'', 1)] :: unit driver"
  let ?b = "scripted [''ABC123'', ''GHI789''] [] :: unit driver"
  have l: "vehicles_of_lines (readlines vehicles_txt) = [] @ ''ABC123'' # [''GHI789'']"
    by (simp add: example_file_lines)
  have ca: "basicConfig ?a ''./get_routes.log'' (browser start) = (Inr (), ())"
    and ra: "read_text ?a ''./vehicles_list.txt'' () = (Inr vehicles_txt, ())"
    and cb: "basicConfig ?b ''./get_routes.log'' (browser start) = (Inr (), ())"
    and rb: "read_text ?b ''./vehicles_list.txt'' () = (Inr vehicles_txt, ())"
    by (simp_all add: scripted_def)
  have "fst (setup_driver ?a True directory ?v) = Inr ()"
    by code_simp
  then have sa: "setup_driver ?a True directory ?v = (Inr (), snd (setup_driver ?a True directory ?v))"
    by (simp add: prod_eq_iff)
  have fa: "for_vehicles ?a [] (snd (setup_driver ?a True directory ?v))
      = (Inr (), snd (setup_driver ?a True directory ?v))"
    by (simp add: ret_def)
  have "fst (iteration ?a ''ABC123'' (snd (setup_driver ?a True directory ?v)))
      = Inl NoSuchElementException"
    by code_simp
  then have ia: "iteration ?a ''ABC123'' (snd (setup_driver ?a True directory ?v))
      = (Inl NoSuchElementException,
         snd (iteration ?a ''ABC123'' (snd (setup_driver ?a True directory ?v))))"
    by (simp add: prod_eq_iff)
  from batch_stops_at_first_error [OF ca ra l sa fa ia, THEN conjunct1]
  have ma: "main ?a start =
      (Inr (), \<lparr>trace = trace (snd (iteration ?a ''ABC123''
           (snd (setup_driver ?a True directory ?v)))) @ [Logging_exception NoSuchElementException],
         browser = logging_exception ?a NoSuchElementException
           (browser (snd (iteration ?a ''ABC123'' (snd (setup_driver ?a True directory ?v)))))\<rparr>)"
    by simp
  have "fst (setup_driver ?b True directory ?v) = Inr ()"
    by code_simp
  then have sb: "setup_driver ?b True directory ?v = (Inr (), snd (setup_driver ?b True directory ?v))"
    by (simp add: prod_eq_iff)
  have fb: "for_vehicles ?b [] (snd (setup_driver ?b True directory ?v))
      = (Inr (), snd (setup_driver ?b True directory ?v))"
    by (simp add: ret_def)
  have "fst (iteration ?b ''ABC123'' (snd (setup_driver ?b True directory ?v))) = Inl ValueError"
    by code_simp
  then have ib: "iteration ?b ''ABC123'' (snd (setup_driver ?b True directory ?v))
      = (Inl ValueError, snd (iteration ?b ''ABC123'' (snd (setup_driver ?b True directory ?v))))"
    by (simp add: prod_eq_iff)
  from batch_stops_at_first_error [OF cb rb l sb fb ib, THEN conjunct1]
  have mb: "main ?b start =
      (Inl ValueError, snd (iteration ?b ''ABC123'' (snd (setup_driver ?b True directory ?v))))"
    by simp
  have na: "Print ''Finding history for GHI789'' \<notin> set (trace (snd (main ?a start)))"
    by code_simp
  have nb: "Print ''Finding history for GHI789'' \<notin> set (trace (snd (main ?b start)))"
    by code_simp
  from ca ra l sa fa ia ma have A: "\<exists>b1 b2 content w0 w1 w2.
      basicConfig ?a ''./get_routes.log'' (browser start) = (Inr (), b1)
    \<and> read_text ?a ''./vehicles_list.txt'' b1 = (Inr content, b2)
    \<and> vehicles_of_lines (readlines content) = [] @ ''ABC123'' # [''GHI789'']
    \<and> setup_driver ?a True directory
          \<lparr>trace = trace start @ [BasicConfig ''./get_routes.log'',
             Read_text ''./vehicles_list.txt''], browser = b2\<rparr> = (Inr (), w0)
    \<and> for_vehicles ?a [] w0 = (Inr (), w1)
    \<and> iteration ?a ''ABC123'' w1 = (Inl NoSuchElementException, w2)
    \<and> main ?a start =
        (Inr (), \<lparr>trace = trace w2 @ [Logging_exception NoSuchElementException],
                   browser = logging_exception ?a NoSuchElementException (browser w2)\<rparr>)"
    by blast
  from cb rb l sb fb ib mb have B: "\<exists>b1 b2 content w0 w1 w2.
      basicConfig ?b ''./get_routes.log'' (browser start) = (Inr (), b1)
    \<and> read_text ?b ''./vehicles_list.txt'' b1 = (Inr content, b2)
    \<and> vehicles_of_lines (readlines content) = [] @ ''ABC123'' # [''GHI789'']
    \<and> setup_driver ?b True directory
          \<lparr>trace = trace start @ [BasicConfig ''./get_routes.log'',
             Read_text ''./vehicles_list.txt''], browser = b2\<rparr> = (Inr (), w0)
    \<and> for_vehicles ?b [] w0 = (Inr (), w1)
    \<and> iteration ?b ''ABC123'' w1 = (Inl ValueError, w2)
    \<and> main ?b start = (Inl ValueError, w2)"
    by blast
  let ?c = "invalid_selector"
  have cc: "basicConfig ?c ''./get_routes.log'' (browser start) = (Inr (), ())"
    and rc: "read_text ?c ''./vehicles_list.txt'' () = (Inr vehicles_txt, ())"
    by (simp_all add: invalid_selector_def scripted_def)
  have "fst (setup_driver ?c True directory ?v) = Inr ()"
    by code_simp
  then have sc: "setup_driver ?c True directory ?v = (Inr (), snd (setup_driver ?c True directory ?v))"
    by (simp add: prod_eq_iff)
  have fc: "for_vehicles ?c [] (snd (setup_driver ?c True directory ?v))
      = (Inr (), snd (setup_driver ?c True directory ?v))"
    by (simp add: ret_def)
  have "fst (iteration ?c ''ABC123'' (snd (setup_driver ?c True directory ?v)))
      = Inl InvalidSelectorException"
    by code_simp
  then have ic: "iteration ?c ''ABC123'' (snd (setup_driver ?c True directory ?v))
      = (Inl InvalidSelectorException,
         snd (iteration ?c ''ABC123'' (snd (setup_driver ?c True directory ?v))))"
    by (simp add: prod_eq_iff)
  have hc: "handled InvalidSelectorException"
    by (simp add: InvalidSelectorException_def)
  from batch_stops_at_first_error [OF cc rc l sc fc ic, THEN conjunct1] hc
  have mc: "main ?c start =
      (Inr (), \<lparr>trace = trace (snd (iteration ?c ''ABC123''
           (snd (setup_driver ?c True directory ?v)))) @ [Logging_exception InvalidSelectorException],
         browser = logging_exception ?c InvalidSelectorException
           (browser (snd (iteration ?c ''ABC123'' (snd (setup_driver ?c True directory ?v)))))\<rparr>)"
    by simp
  have nc: "Print ''Finding history for GHI789'' \<notin> set (trace (snd (main ?c start)))"
    by code_simp
  from cc rc l sc fc ic mc have C: "\<exists>b1 b2 content w0 w1 w2.
      basicConfig ?c ''./get_routes.log'' (browser start) = (Inr (), b1)
    \<and> read_text ?c ''./vehicles_list.txt'' b1 = (Inr content, b2)
    \<and> vehicles_of_lines (readlines content) = [] @ ''ABC123'' # [''GHI789'']
    \<and> setup_driver ?c True directory
          \<lparr>trace = trace start @ [BasicConfig ''./get_routes.log'',
             Read_text ''./vehicles_list.txt''], browser = b2\<rparr> = (Inr (), w0)
    \<and> for_vehicles ?c [] w0 = (Inr (), w1)
    \<and> iteration ?c ''ABC123'' w1 = (Inl InvalidSelectorException, w2)
    \<and> main ?c start =
        (Inr (), \<lparr>trace = trace w2 @ [Logging_exception InvalidSelectorException],
                   browser = logging_exception ?c InvalidSelectorException (browser w2)\<rparr>)"
    by blast
  from A B C na nb nc show ?thesis
    by (intro conjI)
qed

text \<open>
  C8 (as the specification states it, refuted). A display name with no matching option
  makes \<open>select_by_visible_text\<close> raise \<open>NoSuchElementException\<close>, and the handler of the
  script body names that class: the exception is caught and logged, and the process ends
  normally instead of ending with the exception unhandled.
\<close>

theorem unmatched_vehicle_run:
  "select_by_visible_text (scripted [] [(''./a.csv'', 1)]) 1 ''ABC123'' ()
     = (Inl NoSuchElementException, ())
   \<and> handled NoSuchElementException
   \<and> fst (main (scripted [] [(''./a.csv'', 1)]) start) = Inr ()
   \<and> fst (main (scripted [] [(''./a.csv'', 1)]) start) \<noteq> Inl NoSuchElementException
   \<and> last (trace (snd (main (scripted [] [(''./a.csv'', 1)]) start)))
     = Logging_exception NoSuchElementException"
  by code_simp

text \<open>
  C8 (amended). When the dropdown has no option for the display name
  (\<open>select_by_visible_text\<close> raises \<open>NoSuchElementException\<close>), get\_vehicle\_id ends with
  that exception right after the failed selection. The handler of the script body names
  \<open>NoSuchElementException\<close>: it catches the exception, logs it, and the \<^verbatim>\<open>try\<close>
  statement ends normally, with nothing done for the vehicles that follow.
\<close>

theorem unmatched_vehicle_is_caught:
  assumes "setup_driver drv True directory w = (Inr (), w0)"
    and "for_vehicles drv earlier w0 = (Inr (), w1)"
    and "login drv ''####'' ''####'' ''####'' w1 = (Inr (), wl)"
    and "go_to_history drv wl = (Inr (), wh)"
    and "find_element_by_id drv ''ctl00_cphcontent_ddlVehicle'' (browser wh) = (Inr dropdown, b1)"
    and "select drv dropdown b1 = (Inr (), b2)"
    and "select_by_visible_text drv dropdown vehicle b2 = (Inl NoSuchElementException, b3)"
  shows "get_vehicle_id drv vehicle wh =
      (Inl NoSuchElementException,
       \<lparr>trace = trace wh @ [Print (''Finding history for '' @ vehicle),
          Find_element_by_id ''ctl00_cphcontent_ddlVehicle'', Select dropdown,
          Select_by_visible_text dropdown vehicle], browser = b3\<rparr>)
    \<and> handled NoSuchElementException
    \<and> try_except drv (earlier @ vehicle # rest) w =
      (Inr (),
       \<lparr>trace = trace wh @ [Print (''Finding history for '' @ vehicle),
          Find_element_by_id ''ctl00_cphcontent_ddlVehicle'', Select dropdown,
          Select_by_visible_text dropdown vehicle, Logging_exception NoSuchElementException],
        browser = logging_exception drv NoSuchElementException b3\<rparr>)"
proof -
  note g = get_vehicle_id_unmatched [OF assms(5,6,7)]
  note i = iteration_unmatched [OF assms(3,4) g]
  have "try_except drv (earlier @ vehicle # rest) w =
      (Inr (),
       \<lparr>trace = trace wh @ [Print (''Finding history for '' @ vehicle),
          Find_element_by_id ''ctl00_cphcontent_ddlVehicle'', Select dropdown,
          Select_by_visible_text dropdown vehicle, Logging_exception NoSuchElementException],
        browser = logging_exception drv NoSuchElementException b3\<rparr>)"
    using try_except_first_error [OF assms(1,2) i, of rest] by simp
  moreover have "handled NoSuchElementException"
    by simp
  ultimately show ?thesis
    using g by (intro conjI)
qed

theorem unmatched_vehicle_is_caught_witness:
  "\<exists>w0 w1 wl wh.
      setup_driver (scripted [] [(''./a.csv'', 1)]) True directory start = (Inr (), w0)
    \<and> for_vehicles (scripted [] [(''./a.csv'', 1)]) [] w0 = (Inr (), w1)
    \<and> login (scripted [] [(''./a.csv'', 1)]) ''####'' ''####'' ''####'' w1 = (Inr (), wl)
    \<and> go_to_history (scripted [] [(''./a.csv'', 1)]) wl = (Inr (), wh)
    \<and> find_element_by_id (scripted [] [(''./a.csv'', 1)]) ''ctl00_cphcontent_ddlVehicle''
          (browser wh) = (Inr 1, ())
    \<and> select (scripted [] [(''./a.csv'', 1)]) 1 () = (Inr (), ())
    \<and> select_by_visible_text (scripted [] [(''./a.csv'', 1)]) 1 ''ABC123'' ()
          = (Inl NoSuchElementException, ())
    \<and> try_except (scripted [] [(''./a.csv'', 1)]) ([] @ ''ABC123'' # [''GHI789'']) start =
        (Inr (),
         \<lparr>trace = trace wh @ [Print (''Finding history for '' @ ''ABC123''),
            Find_element_by_id ''ctl00_cphcontent_ddlVehicle'', Select 1,
            Select_by_visible_text 1 ''ABC123'', Logging_exception NoSuchElementException],
          browser = logging_exception (scripted [] [(''./a.csv'', 1)]) NoSuchElementException ()\<rparr>)"
proof -
  let ?a = "scripted [] [(''./a.csv'', 1)] :: unit driver"
  let ?w0 = "snd (setup_driver ?a True directory start)"
  let ?wl = "snd (login ?a ''####'' ''####'' ''####'' ?w0)"
  let ?wh = "snd (go_to_history ?a ?wl)"
  have "fst (setup_driver ?a True directory start) = Inr ()"
    by code_simp
  then have s: "setup_driver ?a True directory start = (Inr (), ?w0)"
    by (simp add: prod_eq_iff)
  have f: "for_vehicles ?a [] ?w0 = (Inr (), ?w0)"
    by (simp add: ret_def)
  have "fst (login ?a ''####'' ''####'' ''####'' ?w0) = Inr ()"
    by code_simp
  then have lg: "login ?a ''####'' ''####'' ''####'' ?w0 = (Inr (), ?wl)"
    by (simp add: prod_eq_iff)
  have "fst (go_to_history ?a ?wl) = Inr ()"
    by code_simp
  then have h: "go_to_history ?a ?wl = (Inr (), ?wh)"
    by (simp add: prod_eq_iff)
  have fd: "find_element_by_id ?a ''ctl00_cphcontent_ddlVehicle'' (browser ?wh) = (Inr 1, ())"
    and sl: "select ?a 1 () = (Inr (), ())"
    and sv: "select_by_visible_text ?a 1 ''ABC123'' () = (Inl NoSuchElementException, ())"
    by (simp_all add: scripted_def)
  from unmatched_vehicle_is_caught [OF s f lg h fd sl sv, of "[''GHI789'']"]
  have t: "try_except ?a ([] @ ''ABC123'' # [''GHI789'']) start =
      (Inr (),
       \<lparr>trace = trace ?wh @ [Print (''Finding history for '' @ ''ABC123''),
          Find_element_by_id ''ctl00_cphcontent_ddlVehicle'', Select 1,
          Select_by_visible_text 1 ''ABC123'', Logging_exception NoSuchElementException],
        browser = logging_exception ?a NoSuchElementException ()\<rparr>)"
    by blast
  from s f lg h fd sl sv t show ?thesis
    by blast
qed

subsection \<open>The claims about the request and the rename\<close>

lemma download_csv_rename:
  assumes "minus_one_day (datetime_now drv (browser w)) = Inr p"
    and "get drv (export_url (strftime_dmY p) (format_value v) aname) (browser w) = (Inr (), b1)"
    and "max_getctime drv (glob drv ''./*.csv'' (sleep drv 3 b1))
          \<lparr>trace = trace w @ [Datetime_now, Print ''Downloading CSV file'',
             Get (export_url (strftime_dmY p) (format_value v) aname), Sleep 3, Glob ''./*.csv''],
           browser = sleep drv 3 b1\<rparr> = (Inr downloaded, wm)"
  shows "download_csv drv (aname, v) w =
    and_then (call (Rename downloaded (newname aname downloaded))
                (rename drv downloaded (newname aname downloaded)))
      (\<lambda>_. print (''Downloaded file '' @ drop 2 (newname aname downloaded) @ [LF])) wm"
proof -
  let ?url = "export_url (strftime_dmY p) (format_value v) aname"
  let ?files = "glob drv ''./*.csv'' (sleep drv 3 b1)"
  let ?w1 = "\<lparr>trace = trace w @ [Datetime_now], browser = browser w\<rparr>"
  let ?w2 = "\<lparr>trace = trace w @ [Datetime_now, Print ''Downloading CSV file''],
    browser = browser w\<rparr>"
  let ?w3 = "\<lparr>trace = trace w @ [Datetime_now, Print ''Downloading CSV file'', Get ?url],
    browser = b1\<rparr>"
  let ?w4 = "\<lparr>trace = trace w @ [Datetime_now, Print ''Downloading CSV file'', Get ?url, Sleep 3],
    browser = sleep drv 3 b1\<rparr>"
  let ?w5 = "\<lparr>trace = trace w @ [Datetime_now, Print ''Downloading CSV file'', Get ?url, Sleep 3,
      Glob ''./*.csv''], browser = sleep drv 3 b1\<rparr>"
  have 1: "call Datetime_now (\<lambda>b. (Inr (datetime_now drv b), b)) w =
      (Inr (datetime_now drv (browser w)), ?w1)"
    by (simp add: call_def)
  have 2: "lift (minus_one_day (datetime_now drv (browser w))) ?w1 = (Inr p, ?w1)"
    by (simp add: lift_def assms(1))
  have 3: "print ''Downloading CSV file'' ?w1 = (Inr (), ?w2)"
    by (simp add: print_def effect_def)
  have 4: "call (Get ?url) (get drv ?url) ?w2 = (Inr (), ?w3)"
    by (simp add: call_def assms(2))
  have 5: "effect (Sleep 3) (sleep drv 3) ?w3 = (Inr (), ?w4)"
    by (simp add: effect_def)
  have 6: "call (Glob ''./*.csv'') (\<lambda>b. (Inr (glob drv ''./*.csv'' b), b)) ?w4 = (Inr ?files, ?w5)"
    by (simp add: call_def)
  show ?thesis
    unfolding download_csv_def Let_def fst_conv snd_conv
    by (simp only:
        and_then_Inr [where m = "call Datetime_now (\<lambda>b. (Inr (datetime_now drv b), b))" and w = w, OF 1]
        and_then_Inr [where m = "lift (minus_one_day (datetime_now drv (browser w)))" and w = ?w1, OF 2]
        and_then_Inr [where m = "print ''Downloading CSV file''" and w = ?w1, OF 3]
        and_then_Inr [where m = "call (Get ?url) (get drv ?url)" and w = ?w2, OF 4]
        and_then_Inr [where m = "effect (Sleep 3) (sleep drv 3)" and w = ?w3, OF 5]
        and_then_Inr [where m = "call (Glob ''./*.csv'') (\<lambda>b. (Inr (glob drv ''./*.csv'' b), b))"
          and w = ?w4, OF 6]
        and_then_Inr [where m = "max_getctime drv ?files" and w = ?w5, OF assms(3)])
qed

text \<open>
  C4. For a downloaded name \<open>./<stem>.csv\<close> the new name is \<open>./<aname>_<stem>.csv\<close>:
  the slice removes the two leading and the four trailing characters, the display name
  and an underscore go in front, and \<open>.csv\<close> is appended again. In particular
  \<open>./ABC123_20240314.csv\<close> with display name \<open>XYZ\<close> becomes
  \<open>./XYZ_ABC123_20240314.csv\<close>. When the file that download\_csv picks in the directory
  is \<open>./<stem>.csv\<close>, its next call is the rename of that file to
  \<open>./<aname>_<stem>.csv\<close>.
\<close>

theorem newname_of_csv:
  "newname aname (''./'' @ stem @ ''.csv'') = ''./'' @ aname @ ''_'' @ stem @ ''.csv''
   \<and> py_slice (''./'' @ stem @ ''.csv'') 2 (- 4) = stem
   \<and> newname ''XYZ'' ''./ABC123_20240314.csv'' = ''./XYZ_ABC123_20240314.csv''
   \<and> (minus_one_day (datetime_now drv (browser w)) = Inr p
        \<and> get drv (export_url (strftime_dmY p) (format_value v) aname) (browser w) = (Inr (), b1)
        \<and> max_getctime drv (glob drv ''./*.csv'' (sleep drv 3 b1))
            \<lparr>trace = trace w @ [Datetime_now, Print ''Downloading CSV file'',
               Get (export_url (strftime_dmY p) (format_value v) aname), Sleep 3,
               Glob ''./*.csv''],
             browser = sleep drv 3 b1\<rparr> = (Inr (''./'' @ stem @ ''.csv''), wm)
      \<longrightarrow> download_csv drv (aname, v) w =
            and_then (call (Rename (''./'' @ stem @ ''.csv'') (''./'' @ aname @ ''_'' @ stem @ ''.csv''))
                        (rename drv (''./'' @ stem @ ''.csv'') (''./'' @ aname @ ''_'' @ stem @ ''.csv'')))
              (\<lambda>_. print (''Downloaded file '' @ aname @ ''_'' @ stem @ ''.csv'' @ [LF])) wm)"
proof -
  have s: "py_slice (''./'' @ stem @ ''.csv'') 2 (- 4) = stem" for stem :: string
    by (rule py_slice_strip_ends) simp_all
  have e: "''./ABC123_20240314.csv'' = ''./'' @ ''ABC123_20240314'' @ ''.csv''"
    by simp
  have x: "newname ''XYZ'' ''./ABC123_20240314.csv'' = ''./XYZ_ABC123_20240314.csv''"
    unfolding newname_def e s by simp
  have n: "newname aname (''./'' @ stem @ ''.csv'') = ''./'' @ aname @ ''_'' @ stem @ ''.csv''"
    unfolding newname_def s by (rule refl)
  have d: "drop 2 (''./'' @ aname @ ''_'' @ stem @ ''.csv'') = aname @ ''_'' @ stem @ ''.csv''"
    by simp
  have r: "download_csv drv (aname, v) w =
      and_then (call (Rename (''./'' @ stem @ ''.csv'') (''./'' @ aname @ ''_'' @ stem @ ''.csv''))
                  (rename drv (''./'' @ stem @ ''.csv'') (''./'' @ aname @ ''_'' @ stem @ ''.csv'')))
        (\<lambda>_. print (''Downloaded file '' @ aname @ ''_'' @ stem @ ''.csv'' @ [LF])) wm"
    if "minus_one_day (datetime_now drv (browser w)) = Inr p"
      and "get drv (export_url (strftime_dmY p) (format_value v) aname) (browser w) = (Inr (), b1)"
      and "max_getctime drv (glob drv ''./*.csv'' (sleep drv 3 b1))
            \<lparr>trace = trace w @ [Datetime_now, Print ''Downloading CSV file'',
               Get (export_url (strftime_dmY p) (format_value v) aname), Sleep 3,
               Glob ''./*.csv''],
             browser = sleep drv 3 b1\<rparr> = (Inr (''./'' @ stem @ ''.csv''), wm)"
    using download_csv_rename [OF that] unfolding n d by (simp only: append_assoc)
  from n s x r show ?thesis
    by (intro conjI impI) blast+
qed


theorem newname_of_csv_witness:
  "\<exists>wm.
      minus_one_day (datetime_now
          (scripted [] [(''./a.csv'', 1), (''./ABC123_20240314.csv'', 5)]) (browser start))
        = Inr (fixed_now\<lparr>day := 14\<rparr>)
    \<and> get (scripted [] [(''./a.csv'', 1), (''./ABC123_20240314.csv'', 5)])
          (export_url (strftime_dmY (fixed_now\<lparr>day := 14\<rparr>)) (format_value (Some ''42'')) ''XYZ'')
          (browser start) = (Inr (), ())
    \<and> max_getctime (scripted [] [(''./a.csv'', 1), (''./ABC123_20240314.csv'', 5)])
          (glob (scripted [] [(''./a.csv'', 1), (''./ABC123_20240314.csv'', 5)]) ''./*.csv''
             (sleep (scripted [] [(''./a.csv'', 1), (''./ABC123_20240314.csv'', 5)]) 3 ()))
          \<lparr>trace = trace start @ [Datetime_now, Print ''Downloading CSV file'',
             Get (export_url (strftime_dmY (fixed_now\<lparr>day := 14\<rparr>)) (format_value (Some ''42''))
               ''XYZ''), Sleep 3, Glob ''./*.csv''],
           browser = sleep (scripted [] [(''./a.csv'', 1), (''./ABC123_20240314.csv'', 5)]) 3 ()\<rparr>
        = (Inr (''./'' @ ''ABC123_20240314'' @ ''.csv''), wm)
    \<and> download_csv (scripted [] [(''./a.csv'', 1), (''./ABC123_20240314.csv'', 5)])
          (''XYZ'', Some ''42'') start =
        and_then
          (call (Rename (''./'' @ ''ABC123_20240314'' @ ''.csv'')
                   (''./'' @ ''XYZ'' @ ''_'' @ ''ABC123_20240314'' @ ''.csv''))
             (rename (scripted [] [(''./a.csv'', 1), (''./ABC123_20240314.csv'', 5)])
                (''./'' @ ''ABC123_20240314'' @ ''.csv'')
                (''./'' @ ''XYZ'' @ ''_'' @ ''ABC123_20240314'' @ ''.csv'')))
          (\<lambda>_. print (''Downloaded file '' @ ''XYZ'' @ ''_'' @ ''ABC123_20240314'' @ ''.csv'' @ [LF]))
          wm"
proof -
  let ?d = "scripted [] [(''./a.csv'', 1), (''./ABC123_20240314.csv'', 5)] :: unit driver"
  let ?w5 = "\<lparr>trace = trace start @ [Datetime_now, Print ''Downloading CSV file'',
      Get (export_url (strftime_dmY (fixed_now\<lparr>day := 14\<rparr>)) (format_value (Some ''42''))
        ''XYZ''), Sleep 3, Glob ''./*.csv''],
    browser = sleep ?d 3 ()\<rparr>"
  let ?m = "max_getctime ?d (glob ?d ''./*.csv'' (sleep ?d 3 ())) ?w5"
  have h1: "minus_one_day (datetime_now ?d (browser start)) = Inr (fixed_now\<lparr>day := 14\<rparr>)"
    by (simp add: scripted_def minus_one_day_def fixed_now_def)
  have h2: "get ?d (export_url (strftime_dmY (fixed_now\<lparr>day := 14\<rparr>))
      (format_value (Some ''42'')) ''XYZ'') (browser start) = (Inr (), ())"
    by (simp add: scripted_def)
  have "fst ?m = Inr ''./ABC123_20240314.csv''"
    by code_simp
  then have "fst ?m = Inr (''./'' @ ''ABC123_20240314'' @ ''.csv'')"
    by simp
  then have h3: "?m = (Inr (''./'' @ ''ABC123_20240314'' @ ''.csv''), snd ?m)"
    by (simp only: prod_eq_iff fst_conv snd_conv simp_thms)
  have "minus_one_day (datetime_now ?d (browser start)) = Inr (fixed_now\<lparr>day := 14\<rparr>)
      \<and> get ?d (export_url (strftime_dmY (fixed_now\<lparr>day := 14\<rparr>))
          (format_value (Some ''42'')) ''XYZ'') (browser start) = (Inr (), ())
      \<and> ?m = (Inr (''./'' @ ''ABC123_20240314'' @ ''.csv''), snd ?m)"
    using h1 h2 h3 by (intro conjI)
  with newname_of_csv [of "''XYZ''" "''ABC123_20240314''" ?d start "fixed_now\<lparr>day := 14\<rparr>"
      "Some ''42''" "()" "snd ?m"]
  have c: "download_csv ?d (''XYZ'', Some ''42'') start =
      and_then
        (call (Rename (''./'' @ ''ABC123_20240314'' @ ''.csv'')
                 (''./'' @ ''XYZ'' @ ''_'' @ ''ABC123_20240314'' @ ''.csv''))
           (rename ?d (''./'' @ ''ABC123_20240314'' @ ''.csv'')
              (''./'' @ ''XYZ'' @ ''_'' @ ''ABC123_20240314'' @ ''.csv'')))
        (\<lambda>_. print (''Downloaded file '' @ ''XYZ'' @ ''_'' @ ''ABC123_20240314'' @ ''.csv'' @ [LF]))
        (snd ?m)"
    by blast
  show ?thesis
    using h1 h2 h3 c by (intro exI [of _ "snd ?m"] conjI)
qed

text \<open>
  C1 (as the specification states it, refuted). The code's URL is not the
  specification's template: the code's last parameter is \<open>showdriverbehavioralerts\<close>,
  the template's is \<open>showdriverbehavioralalerts\<close>.
\<close>

theorem export_url_not_spec_template:
  "export_url ''14/03/2024'' ''42'' ''ABC123''
     \<noteq> spec_url_template ''www.dennisconnect.co.uk'' ''14/03/2024'' ''42'' ''ABC123''"
  by (simp add: export_url_def spec_url_template_def)

text \<open>
  C1 (amended). For every date string, internal identifier and display name the URL is
  the template with the last parameter named \<open>showdriverbehavioralerts\<close>, the host
  \<open>www.dennisconnect.co.uk\<close>, and only the two date fields, \<open>aid\<close> and \<open>aname\<close>
  substituted; and this, with the date of the day before, is the URL that download\_csv
  requests.
\<close>

theorem export_url_template:
  "export_url D aid aname = code_url_template ''www.dennisconnect.co.uk'' D aid aname
   \<and> (minus_one_day (datetime_now drv (browser w)) = Inr p \<longrightarrow>
        (\<exists>r. trace (snd (download_csv drv (aname, Some aid) w)) =
           trace w @ [Datetime_now, Print ''Downloading CSV file'',
             Get (code_url_template ''www.dennisconnect.co.uk'' (strftime_dmY p) aid aname)] @ r))"
proof -
  have u: "export_url D aid aname = code_url_template ''www.dennisconnect.co.uk'' D aid aname"
    for D
    by (simp add: export_url_def code_url_template_def)
  have "\<exists>r. trace (snd (download_csv drv (aname, Some aid) w)) =
      trace w @ [Datetime_now, Print ''Downloading CSV file'',
        Get (code_url_template ''www.dennisconnect.co.uk'' (strftime_dmY p) aid aname)] @ r"
    if "minus_one_day (datetime_now drv (browser w)) = Inr p"
    using download_csv_trace [OF that, of aname "Some aid"]
    by (simp only: u format_value_def option.case)
  with u show ?thesis
    by blast
qed

theorem export_url_template_witness:
  "minus_one_day (datetime_now (scripted [] []) (browser start)) = Inr (fixed_now\<lparr>day := 14\<rparr>)
   \<and> (\<exists>r. trace (snd (download_csv (scripted [] []) (''ABC123'', Some ''42'') start)) =
         trace start @ [Datetime_now, Print ''Downloading CSV file'',
           Get (code_url_template ''www.dennisconnect.co.uk''
                  (strftime_dmY (fixed_now\<lparr>day := 14\<rparr>)) ''42'' ''ABC123'')] @ r)
   \<and> code_url_template ''www.dennisconnect.co.uk'' (strftime_dmY (fixed_now\<lparr>day := 14\<rparr>))
         ''42'' ''ABC123''
       = ''https://www.dennisconnect.co.uk/_handler/csv.ashx?req=HISTORY_LIST''
         @ ''&sdate=14/03/2024%2000:00&edate=14/03/2024%2023:59&atype=V&aid=42&aname=ABC123''
         @ ''&locfil=&useshape=false&dtl=0&s2r=false&showdriverbehavioralerts=false''"
proof -
  let ?d = "scripted [] [] :: unit driver"
  have h: "minus_one_day (datetime_now ?d (browser start)) = Inr (fixed_now\<lparr>day := 14\<rparr>)"
    by (simp add: scripted_def minus_one_day_def fixed_now_def)
  from export_url_template [of _ "''42''" "''ABC123''" ?d start "fixed_now\<lparr>day := 14\<rparr>"] h
  have t: "\<exists>r. trace (snd (download_csv ?d (''ABC123'', Some ''42'') start)) =
      trace start @ [Datetime_now, Print ''Downloading CSV file'',
        Get (code_url_template ''www.dennisconnect.co.uk''
               (strftime_dmY (fixed_now\<lparr>day := 14\<rparr>)) ''42'' ''ABC123'')] @ r"
    by blast
  have c: "code_url_template ''www.dennisconnect.co.uk'' (strftime_dmY (fixed_now\<lparr>day := 14\<rparr>))
        ''42'' ''ABC123''
      = ''https://www.dennisconnect.co.uk/_handler/csv.ashx?req=HISTORY_LIST''
        @ ''&sdate=14/03/2024%2000:00&edate=14/03/2024%2023:59&atype=V&aid=42&aname=ABC123''
        @ ''&locfil=&useshape=false&dtl=0&s2r=false&showdriverbehavioralerts=false''"
    by (simp add: code_url_template_def fixed_now_def strftime_dmY_def two_digits_def
        four_digits_def digit_def)
  from h t c show ?thesis
    by (intro conjI)
qed

end
